theory Spec2Isabelle
  imports Main
begin

section \<open>Domain model (the shared schema)\<close>

text \<open>
  Identifiers are the serial integers of the schema, a \<open>Date\<close> is its number of
  milliseconds, a nullable column is an \<open>option\<close>, and a \<open>jsonb\<close> payload that
  the storage layer never inspects is a string or a JSON value. The \<open>data\<close> column of a
  test version is documented as a full snapshot of the test case, so it is a
  \<open>TestCase\<close>.
\<close>

type_synonym timestamp = nat

datatype json = JString string | JNumber int | JArray "json list" | JObject "(string \<times> json) list"

record TestCase =
  tc_id :: nat
  tc_title :: string
  tc_description :: "string option"
  tc_status :: string
  tc_priority :: string
  tc_type :: string
  tc_assigned_to :: "nat option"
  tc_created_by :: nat
  tc_created_at :: timestamp
  tc_updated_at :: timestamp
  tc_last_run :: "timestamp option"
  tc_expected_result :: "string option"
  tc_version :: int

text \<open>\<open>InsertTestCase\<close>: a test case without id, created_at, updated_at, last_run, version.\<close>

record InsertTestCase =
  itc_title :: string
  itc_description :: "string option"
  itc_status :: string
  itc_priority :: string
  itc_type :: string
  itc_assigned_to :: "nat option"
  itc_created_by :: nat
  itc_expected_result :: "string option"

text \<open>\<open>Partial<InsertTestCase>\<close>: every field may be absent (\<open>None\<close>).\<close>

record TestCasePatch =
  p_title :: "string option"
  p_description :: "string option option"
  p_status :: "string option"
  p_priority :: "string option"
  p_type :: "string option"
  p_assigned_to :: "nat option option"
  p_created_by :: "nat option"
  p_expected_result :: "string option option"

record TestStep =
  ts_id :: nat
  ts_test_case_id :: nat
  ts_step_number :: int
  ts_description :: string
  ts_expected_result :: "string option"

text \<open>\<open>InsertTestStep\<close>: a test step without id.\<close>

record InsertTestStep =
  its_test_case_id :: nat
  its_step_number :: int
  its_description :: string
  its_expected_result :: "string option"

text \<open>An element of \<open>TestCaseWithSteps.steps\<close>: an insert step without test_case_id.\<close>

record StepInput =
  si_step_number :: int
  si_description :: string
  si_expected_result :: "string option"

record TestCaseWithSteps =
  tcs_testCase :: InsertTestCase
  tcs_steps :: "StepInput list"

record TestVersion =
  tv_id :: nat
  tv_test_case_id :: nat
  tv_version :: int
  tv_data :: TestCase
  tv_created_by :: nat
  tv_created_at :: timestamp
  tv_change_comment :: "string option"

text \<open>\<open>InsertTestVersion\<close>: a test version without id and created_at.\<close>

record InsertTestVersion =
  itv_test_case_id :: nat
  itv_version :: int
  itv_data :: TestCase
  itv_created_by :: nat
  itv_change_comment :: "string option"

record TestCaseFolder =
  tcf_id :: nat
  tcf_test_case_id :: nat
  tcf_folderId :: nat

record TestRunResult =
  trr_id :: nat
  trr_runId :: nat
  trr_test_case_id :: nat
  trr_status :: string
  trr_notes :: "string option"
  trr_executed_by :: nat
  trr_executed_at :: timestamp

text \<open>\<open>InsertTestRunResult\<close>: a result without id and executed_at.\<close>

record InsertTestRunResult =
  itrr_runId :: nat
  itrr_test_case_id :: nat
  itrr_status :: string
  itrr_notes :: "string option"
  itrr_executed_by :: nat

record InsertActivityLog =
  ial_user_id :: nat
  ial_action :: string
  ial_entity_type :: string
  ial_entity_id :: nat
  ial_details :: "json option"

text \<open>A row of activity_logs, as the schema declares it.\<close>

record ActivityLog =
  al_id :: nat
  al_user_id :: nat
  al_action :: string
  al_entity_type :: string
  al_entity_id :: nat
  al_details :: "json option"
  al_created_at :: timestamp

section \<open>The persistent adapter: SupabaseStorage\<close>

subsection \<open>The remote store\<close>

text \<open>
  The store is the tables the adapter reads and writes, each a list of rows in insertion
  order, with the next value of each serial id. One request of the client is one function
  below. Whether the store answers a request with an error is not decided by the adapter:
  it is an input of the model, one flag per request (\<open>True\<close>: the store answers with an
  error and the request changes nothing). The one error the client raises by itself is
  that of \<open>.single()\<close>, when the rows selected are not exactly one.
\<close>

datatype error = BackendError

record DB =
  test_cases :: "TestCase list"
  test_steps :: "TestStep list"
  test_versions :: "TestVersion list"
  test_case_folders :: "TestCaseFolder list"
  test_run_results :: "TestRunResult list"
  activity_logs :: "ActivityLog list"
  seq_test_cases :: nat
  seq_test_steps :: nat
  seq_test_versions :: nat
  seq_test_run_results :: nat
  seq_activity_logs :: nat

definition empty_db :: DB where
  "empty_db = \<lparr> test_cases = [], test_steps = [], test_versions = [],
     test_case_folders = [], test_run_results = [], activity_logs = [],
     seq_test_cases = 1, seq_test_steps = 1, seq_test_versions = 1,
     seq_test_run_results = 1, seq_activity_logs = 1 \<rparr>"

definition single :: "'a list \<Rightarrow> error + 'a" where
  "single rows = (case rows of [r] \<Rightarrow> Inr r | _ \<Rightarrow> Inl BackendError)"

text \<open>The row an insert into test_cases creates: the columns given, and the defaults of
  the schema for the others (version 1, created_at and updated_at now, last_run null).\<close>

definition new_test_case_row :: "nat \<Rightarrow> timestamp \<Rightarrow> InsertTestCase \<Rightarrow> TestCase" where
  "new_test_case_row i now t =
     \<lparr> tc_id = i, tc_title = itc_title t, tc_description = itc_description t,
       tc_status = itc_status t, tc_priority = itc_priority t, tc_type = itc_type t,
       tc_assigned_to = itc_assigned_to t, tc_created_by = itc_created_by t,
       tc_created_at = now, tc_updated_at = now, tc_last_run = None,
       tc_expected_result = itc_expected_result t, tc_version = 1 \<rparr>"

text \<open>\<open>from("test_cases").insert([testCase]).select().single()\<close>\<close>

definition insert_test_case :: "DB \<Rightarrow> bool \<Rightarrow> timestamp \<Rightarrow> InsertTestCase \<Rightarrow> (error + TestCase) \<times> DB" where
  "insert_test_case db err now t =
     (if err then (Inl BackendError, db)
      else let row = new_test_case_row (seq_test_cases db) now t
           in (Inr row, db\<lparr> test_cases := test_cases db @ [row],
                             seq_test_cases := seq_test_cases db + 1 \<rparr>))"

definition new_test_step_row :: "nat \<Rightarrow> InsertTestStep \<Rightarrow> TestStep" where
  "new_test_step_row i s =
     \<lparr> ts_id = i, ts_test_case_id = its_test_case_id s, ts_step_number = its_step_number s,
       ts_description = its_description s, ts_expected_result = its_expected_result s \<rparr>"

text \<open>The rows of a bulk insert take consecutive ids from \<open>i\<close> on.\<close>

fun number_steps :: "nat \<Rightarrow> InsertTestStep list \<Rightarrow> TestStep list" where
  "number_steps i [] = []"
| "number_steps i (s # ss) = new_test_step_row i s # number_steps (i + 1) ss"

text \<open>\<open>from("test_steps").insert(rows)\<close>\<close>

definition insert_test_steps :: "DB \<Rightarrow> bool \<Rightarrow> InsertTestStep list \<Rightarrow> error option \<times> DB" where
  "insert_test_steps db err rows =
     (if err then (Some BackendError, db)
      else (None, db\<lparr> test_steps := test_steps db @ number_steps (seq_test_steps db) rows,
                       seq_test_steps := seq_test_steps db + length rows \<rparr>))"

text \<open>\<open>from("test_steps").delete().eq("test_case_id", id)\<close>\<close>

definition delete_test_steps :: "DB \<Rightarrow> bool \<Rightarrow> nat \<Rightarrow> error option \<times> DB" where
  "delete_test_steps db err i =
     (if err then (Some BackendError, db)
      else (None, db\<lparr> test_steps := filter (\<lambda>s. ts_test_case_id s \<noteq> i) (test_steps db) \<rparr>))"

text \<open>\<open>from("test_cases").delete().eq("id", id)\<close>\<close>

definition delete_test_case_row :: "DB \<Rightarrow> bool \<Rightarrow> nat \<Rightarrow> error option \<times> DB" where
  "delete_test_case_row db err i =
     (if err then (Some BackendError, db)
      else (None, db\<lparr> test_cases := filter (\<lambda>r. tc_id r \<noteq> i) (test_cases db) \<rparr>))"

text \<open>\<open>from("test_cases").update(body).eq("id", id)\<close>: the body sets the columns it
  names in every row selected; \<open>f\<close> is what the body does to a row.\<close>

definition update_test_cases :: "DB \<Rightarrow> bool \<Rightarrow> (TestCase \<Rightarrow> TestCase) \<Rightarrow> nat \<Rightarrow> error option \<times> DB" where
  "update_test_cases db err f i =
     (if err then (Some BackendError, db)
      else (None, db\<lparr> test_cases := map (\<lambda>r. if tc_id r = i then f r else r) (test_cases db) \<rparr>))"

text \<open>\<open>from("test_cases").update(body).eq("id", id).select().single()\<close>: the rows
  updated are returned, and there must be exactly one.\<close>

definition update_test_cases_single :: "DB \<Rightarrow> bool \<Rightarrow> (TestCase \<Rightarrow> TestCase) \<Rightarrow> nat \<Rightarrow> (error + TestCase) \<times> DB" where
  "update_test_cases_single db err f i =
     (case update_test_cases db err f i of
        (Some e, db') \<Rightarrow> (Inl e, db')
      | (None, db') \<Rightarrow> (single (map f (filter (\<lambda>r. tc_id r = i) (test_cases db))), db'))"

text \<open>What a body of type \<open>Partial<InsertTestCase>\<close> does to a row.\<close>

definition apply_patch :: "TestCasePatch \<Rightarrow> TestCase \<Rightarrow> TestCase" where
  "apply_patch p r =
     r\<lparr> tc_title := (case p_title p of None \<Rightarrow> tc_title r | Some v \<Rightarrow> v),
        tc_description := (case p_description p of None \<Rightarrow> tc_description r | Some v \<Rightarrow> v),
        tc_status := (case p_status p of None \<Rightarrow> tc_status r | Some v \<Rightarrow> v),
        tc_priority := (case p_priority p of None \<Rightarrow> tc_priority r | Some v \<Rightarrow> v),
        tc_type := (case p_type p of None \<Rightarrow> tc_type r | Some v \<Rightarrow> v),
        tc_assigned_to := (case p_assigned_to p of None \<Rightarrow> tc_assigned_to r | Some v \<Rightarrow> v),
        tc_created_by := (case p_created_by p of None \<Rightarrow> tc_created_by r | Some v \<Rightarrow> v),
        tc_expected_result := (case p_expected_result p of None \<Rightarrow> tc_expected_result r | Some v \<Rightarrow> v) \<rparr>"

subsection \<open>Test cases and their steps\<close>

definition step_for_case :: "nat \<Rightarrow> StepInput \<Rightarrow> InsertTestStep" where
  "step_for_case i s =
     \<lparr> its_test_case_id = i, its_step_number = si_step_number s,
       its_description = si_description s, its_expected_result = si_expected_result s \<rparr>"

text \<open>\<open>createTestCase\<close>: a thrown error is \<open>Inl\<close>; the store keeps what was written
  before the throw.\<close>

definition SupabaseStorage_createTestCase ::
  "DB \<Rightarrow> bool \<times> bool \<Rightarrow> timestamp \<Rightarrow> TestCaseWithSteps \<Rightarrow> (error + TestCase) \<times> DB" where
  "SupabaseStorage_createTestCase db errs now testCaseWithSteps =
     (case insert_test_case db (fst errs) now (tcs_testCase testCaseWithSteps) of
        (Inl testCaseError, db1) \<Rightarrow> (Inl testCaseError, db1)
      | (Inr newTestCase, db1) \<Rightarrow>
          (if length (tcs_steps testCaseWithSteps) > 0 then
             (case insert_test_steps db1 (snd errs)
                     (map (step_for_case (tc_id newTestCase)) (tcs_steps testCaseWithSteps)) of
                (Some stepsError, db2) \<Rightarrow> (Inl stepsError, db2)
              | (None, db2) \<Rightarrow> (Inr newTestCase, db2))
           else (Inr newTestCase, db1)))"

text \<open>\<open>getTestCase\<close>: \<open>undefined\<close> is \<open>None\<close>.\<close>

definition SupabaseStorage_getTestCase :: "DB \<Rightarrow> bool \<Rightarrow> nat \<Rightarrow> TestCase option" where
  "SupabaseStorage_getTestCase db err i =
     (if err then None
      else (case single (filter (\<lambda>r. tc_id r = i) (test_cases db)) of
              Inl e \<Rightarrow> None
            | Inr data \<Rightarrow> Some data))"

definition SupabaseStorage_getTestSteps :: "DB \<Rightarrow> bool \<Rightarrow> nat \<Rightarrow> TestStep list" where
  "SupabaseStorage_getTestSteps db err i =
     (if err then [] else filter (\<lambda>s. ts_test_case_id s = i) (test_steps db))"

text \<open>\<open>updateTestCase(id, data, steps?)\<close>: an omitted \<open>steps\<close> is \<open>None\<close>; an array,
  also the empty one, is truthy and takes the branch that replaces the steps. The three
  flags are the store's answers to the update, the delete and the insert.\<close>

definition SupabaseStorage_updateTestCase ::
  "DB \<Rightarrow> bool \<times> bool \<times> bool \<Rightarrow> nat \<Rightarrow> TestCasePatch \<Rightarrow> InsertTestStep list option \<Rightarrow> TestCase option \<times> DB" where
  "SupabaseStorage_updateTestCase db errs i data steps =
     (case update_test_cases_single db (fst errs) (apply_patch data) i of
        (Inl updateError, db1) \<Rightarrow> (None, db1)
      | (Inr updatedTestCase, db1) \<Rightarrow>
          (case steps of
             None \<Rightarrow> (Some updatedTestCase, db1)
           | Some ss \<Rightarrow>
               (case delete_test_steps db1 (fst (snd errs)) i of
                  (Some deleteError, db2) \<Rightarrow> (None, db2)
                | (None, db2) \<Rightarrow>
                    (case insert_test_steps db2 (snd (snd errs))
                            (map (\<lambda>step. step\<lparr> its_test_case_id := i \<rparr>) ss) of
                       (Some insertError, db3) \<Rightarrow> (None, db3)
                     | (None, db3) \<Rightarrow> (Some updatedTestCase, db3)))))"

text \<open>\<open>deleteTestCase\<close>: the steps first, then the row of the test case.\<close>

definition SupabaseStorage_deleteTestCase :: "DB \<Rightarrow> bool \<times> bool \<Rightarrow> nat \<Rightarrow> bool \<times> DB" where
  "SupabaseStorage_deleteTestCase db errs i =
     (case delete_test_steps db (fst errs) i of
        (Some deleteStepsError, db1) \<Rightarrow> (False, db1)
      | (None, db1) \<Rightarrow>
          (case delete_test_case_row db1 (snd errs) i of
             (Some deleteTestCaseError, db2) \<Rightarrow> (False, db2)
           | (None, db2) \<Rightarrow> (True, db2)))"

subsection \<open>Version history\<close>

text \<open>\<open>createTestVersion\<close>: the only operation that writes test_versions.\<close>

definition SupabaseStorage_createTestVersion ::
  "DB \<Rightarrow> bool \<Rightarrow> timestamp \<Rightarrow> InsertTestVersion \<Rightarrow> (error + TestVersion) \<times> DB" where
  "SupabaseStorage_createTestVersion db err now version =
     (if err then (Inl BackendError, db)
      else let row = \<lparr> tv_id = seq_test_versions db, tv_test_case_id = itv_test_case_id version,
                        tv_version = itv_version version, tv_data = itv_data version,
                        tv_created_by = itv_created_by version, tv_created_at = now,
                        tv_change_comment = itv_change_comment version \<rparr>
           in (Inr row, db\<lparr> test_versions := test_versions db @ [row],
                             seq_test_versions := seq_test_versions db + 1 \<rparr>))"

definition SupabaseStorage_getTestVersions :: "DB \<Rightarrow> bool \<Rightarrow> nat \<Rightarrow> TestVersion list" where
  "SupabaseStorage_getTestVersions db err i =
     (if err then [] else filter (\<lambda>v. tv_test_case_id v = i) (test_versions db))"

text \<open>\<open>xs[k]\<close> of JavaScript: \<open>undefined\<close> (\<open>None\<close>) outside the array.\<close>

definition js_index :: "'a list \<Rightarrow> int \<Rightarrow> 'a option" where
  "js_index xs k = (if 0 \<le> k \<and> k < int (length xs) then Some (xs ! nat k) else None)"

text \<open>
  The body of the update in \<open>revertToVersion\<close> is the whole row of test_versions that was
  selected, with the keys id, test_case_id, version, data, created_by, created_at and
  change_comment. Of these, test_cases has the columns id, version, created_by and
  created_at, and no column test_case_id, data or change_comment. A store that accepts the
  body sets the four columns; a store that refuses a key without a column answers with an
  error, which is the flag of the request. An \<open>undefined\<close> body names no column.
\<close>

definition version_row_body :: "TestVersion option \<Rightarrow> TestCase \<Rightarrow> TestCase" where
  "version_row_body body r =
     (case body of
        None \<Rightarrow> r
      | Some v \<Rightarrow> r\<lparr> tc_id := tv_id v, tc_version := tv_version v,
                       tc_created_by := tv_created_by v, tc_created_at := tv_created_at v \<rparr>)"

text \<open>\<open>revertToVersion(test_case_id, version)\<close>: the two flags are the store's answers
  to the select and to the update.\<close>

definition SupabaseStorage_revertToVersion :: "DB \<Rightarrow> bool \<times> bool \<Rightarrow> nat \<Rightarrow> int \<Rightarrow> bool \<times> DB" where
  "SupabaseStorage_revertToVersion db errs test_case_id version =
     (if fst errs then (False, db)
      else let versions = filter (\<lambda>v. tv_test_case_id v = test_case_id) (test_versions db)
           in if length versions = 0 then (False, db)
              else (case update_test_cases db (snd errs)
                           (version_row_body (js_index versions (version - 1))) test_case_id of
                      (Some updateError, db1) \<Rightarrow> (False, db1)
                    | (None, db1) \<Rightarrow> (True, db1)))"

subsection \<open>Folders, run results, activity log\<close>

text \<open>\<open>removeTestCaseFromFolder\<close>: a delete of the rows with both keys; the store does
  not answer with an error when no row matches.\<close>

definition SupabaseStorage_removeTestCaseFromFolder :: "DB \<Rightarrow> bool \<Rightarrow> nat \<Rightarrow> nat \<Rightarrow> bool \<times> DB" where
  "SupabaseStorage_removeTestCaseFromFolder db err test_case_id folderId =
     (if err then (False, db)
      else (True, db\<lparr> test_case_folders :=
                        filter (\<lambda>a. \<not> (tcf_test_case_id a = test_case_id \<and> tcf_folderId a = folderId))
                          (test_case_folders db) \<rparr>))"

text \<open>The private helper \<open>updateTestCaseStatus\<close>: the body is \<open>{ status }\<close>; an error is
  logged and not thrown.\<close>

definition SupabaseStorage_updateTestCaseStatus :: "DB \<Rightarrow> bool \<Rightarrow> nat \<Rightarrow> string \<Rightarrow> DB" where
  "SupabaseStorage_updateTestCaseStatus db err test_case_id status =
     snd (update_test_cases db err (\<lambda>r. r\<lparr> tc_status := status \<rparr>) test_case_id)"

text \<open>\<open>createTestRunResult\<close>: the row inserted gets executed_at from the store's clock.\<close>

definition SupabaseStorage_createTestRunResult ::
  "DB \<Rightarrow> bool \<times> bool \<Rightarrow> timestamp \<Rightarrow> InsertTestRunResult \<Rightarrow> (error + TestRunResult) \<times> DB" where
  "SupabaseStorage_createTestRunResult db errs now result =
     (if fst errs then (Inl BackendError, db)
      else let insertedResult =
                 \<lparr> trr_id = seq_test_run_results db, trr_runId = itrr_runId result,
                   trr_test_case_id = itrr_test_case_id result, trr_status = itrr_status result,
                   trr_notes = itrr_notes result, trr_executed_by = itrr_executed_by result,
                   trr_executed_at = now \<rparr>;
               db1 = db\<lparr> test_run_results := test_run_results db @ [insertedResult],
                          seq_test_run_results := seq_test_run_results db + 1 \<rparr>
           in (Inr insertedResult,
               SupabaseStorage_updateTestCaseStatus db1 (snd errs)
                 (itrr_test_case_id result) (itrr_status result)))"

text \<open>\<open>logActivity\<close>: an error of the insert is thrown (the promise is rejected).\<close>

definition SupabaseStorage_logActivity ::
  "DB \<Rightarrow> bool \<Rightarrow> timestamp \<Rightarrow> InsertActivityLog \<Rightarrow> (error + ActivityLog) \<times> DB" where
  "SupabaseStorage_logActivity db err now log =
     (if err then (Inl BackendError, db)
      else let row = \<lparr> al_id = seq_activity_logs db, al_user_id = ial_user_id log,
                        al_action = ial_action log, al_entity_type = ial_entity_type log,
                        al_entity_id = ial_entity_id log, al_details = ial_details log,
                        al_created_at = now \<rparr>
           in (Inr row, db\<lparr> activity_logs := activity_logs db @ [row],
                             seq_activity_logs := seq_activity_logs db + 1 \<rparr>))"

section \<open>The in-memory adapter: MemStorage\<close>

subsection \<open>Entities only the in-memory adapter is read for\<close>

record User =
  u_id :: nat
  u_username :: string
  u_email :: string
  u_password :: string
  u_full_name :: string
  u_avatar :: "string option"
  u_role :: string
  u_last_login :: "timestamp option"
  u_is_active :: bool

text \<open>\<open>InsertUser\<close>: a user without id and last_login.\<close>

record InsertUser =
  iu_username :: string
  iu_email :: string
  iu_password :: string
  iu_full_name :: string
  iu_avatar :: "string option"
  iu_role :: string
  iu_is_active :: bool

record Folder =
  f_id :: nat
  f_name :: string
  f_description :: "string option"
  f_created_by :: "nat option"
  f_created_at :: timestamp

text \<open>\<open>InsertFolder\<close>: a folder without id and created_at.\<close>

record InsertFolder =
  if_name :: string
  if_description :: "string option"
  if_created_by :: "nat option"

record TestRun =
  tr_id :: nat
  tr_name :: string
  tr_description :: "string option"
  tr_status :: string
  tr_started_at :: timestamp
  tr_complete_at :: "timestamp option"
  tr_executed_by :: nat
  tr_duration :: "int option"

record Bug =
  b_id :: nat
  b_title :: string
  b_description :: string
  b_status :: string
  b_severity :: string
  b_test_case_id :: "nat option"
  b_test_run_result_id :: "nat option"
  b_reported_by :: nat
  b_reported_at :: timestamp
  b_assigned_to :: "nat option"
  b_updated_at :: timestamp

record Whiteboard =
  w_id :: nat
  w_name :: string
  w_content :: "string option"
  w_created_by :: nat
  w_created_at :: timestamp
  w_updated_at :: timestamp

record AITestCase =
  ai_id :: nat
  ai_prompt :: string
  ai_response :: string
  ai_created_by :: nat
  ai_created_at :: timestamp
  ai_imported :: bool

text \<open>The object \<open>MemStorage.logActivity\<close> builds: the log given, an id and a
  \<open>timestamp\<close>.\<close>

record MemActivityLog =
  mal_id :: nat
  mal_user_id :: nat
  mal_action :: string
  mal_entity_type :: string
  mal_entity_id :: nat
  mal_details :: "json option"
  mal_timestamp :: timestamp

subsection \<open>Maps and sets of JavaScript\<close>

text \<open>A \<open>Map\<close> iterates in insertion order, so it is an association list with one entry
  per key: \<open>set\<close> replaces the value of a key in place or appends a new entry. A
  \<open>Set\<close> is a list without duplicates, in insertion order.\<close>

type_synonym ('k, 'v) js_map = "('k \<times> 'v) list"

definition map_has :: "('k, 'v) js_map \<Rightarrow> 'k \<Rightarrow> bool" where
  "map_has m k = (map_of m k \<noteq> None)"

definition map_get :: "('k, 'v) js_map \<Rightarrow> 'k \<Rightarrow> 'v option" where
  "map_get m k = map_of m k"

fun map_set :: "('k, 'v) js_map \<Rightarrow> 'k \<Rightarrow> 'v \<Rightarrow> ('k, 'v) js_map" where
  "map_set [] k v = [(k, v)]"
| "map_set ((k', v') # m) k v = (if k' = k then (k, v) # m else (k', v') # map_set m k v)"

definition map_values :: "('k, 'v) js_map \<Rightarrow> 'v list" where
  "map_values m = map snd m"

definition set_has :: "'a list \<Rightarrow> 'a \<Rightarrow> bool" where
  "set_has s x = (x \<in> set s)"

definition set_add :: "'a list \<Rightarrow> 'a \<Rightarrow> 'a list" where
  "set_add s x = (if x \<in> set s then s else s @ [x])"

text \<open>\<open>Set.delete\<close> returns whether the element was there.\<close>

definition set_delete :: "'a list \<Rightarrow> 'a \<Rightarrow> bool \<times> 'a list" where
  "set_delete s x = (x \<in> set s, filter (\<lambda>y. y \<noteq> x) s)"

subsection \<open>The state\<close>

record MemStorage =
  ms_users :: "(nat, User) js_map"
  ms_folders :: "(nat, Folder) js_map"
  ms_testCases :: "(nat, TestCase) js_map"
  ms_testSteps :: "(nat, TestStep list) js_map"
  ms_testVersions :: "(nat, TestVersion list) js_map"
  ms_testCaseFolders :: "(nat, nat list) js_map"
  ms_testRuns :: "(nat, TestRun) js_map"
  ms_testRunResults :: "(nat, TestRunResult list) js_map"
  ms_bugs :: "(nat, Bug) js_map"
  ms_whiteboards :: "(nat, Whiteboard) js_map"
  ms_aiTestCases :: "(nat, AITestCase) js_map"
  ms_activityLogs :: "MemActivityLog list"
  ms_userId :: nat
  ms_folderId :: nat
  ms_test_case_id :: nat
  ms_testStepId :: nat
  ms_testVersionId :: nat
  ms_testCaseFolderId :: nat
  ms_testRunId :: nat
  ms_test_run_result_id :: nat
  ms_bugId :: nat
  ms_whiteboardId :: nat
  ms_aitest_case_id :: nat
  ms_activityLogId :: nat

text \<open>The state before the body of the constructor runs: the field initialisers set every
  counter to 1, and the first statements of the constructor create the empty collections.\<close>

definition mem_initial :: MemStorage where
  "mem_initial =
     \<lparr> ms_users = [], ms_folders = [], ms_testCases = [], ms_testSteps = [],
       ms_testVersions = [], ms_testCaseFolders = [], ms_testRuns = [],
       ms_testRunResults = [], ms_bugs = [], ms_whiteboards = [], ms_aiTestCases = [],
       ms_activityLogs = [],
       ms_userId = 1, ms_folderId = 1, ms_test_case_id = 1, ms_testStepId = 1,
       ms_testVersionId = 1, ms_testCaseFolderId = 1, ms_testRunId = 1,
       ms_test_run_result_id = 1, ms_bugId = 1, ms_whiteboardId = 1,
       ms_aitest_case_id = 1, ms_activityLogId = 1 \<rparr>"

subsection \<open>Operations\<close>

text \<open>Every \<open>new Date()\<close> an operation evaluates is an argument of its model, in the order
  of evaluation. The methods are \<open>async\<close> but never await, so each runs to its end when
  it is called.\<close>

definition MemStorage_createUser :: "MemStorage \<Rightarrow> InsertUser \<Rightarrow> User \<times> MemStorage" where
  "MemStorage_createUser ms user =
     (let i = ms_userId ms;
          newUser = \<lparr> u_id = i, u_username = iu_username user, u_email = iu_email user,
                      u_password = iu_password user, u_full_name = iu_full_name user,
                      u_avatar = iu_avatar user, u_role = iu_role user, u_last_login = None,
                      u_is_active = iu_is_active user \<rparr>
      in (newUser, ms\<lparr> ms_userId := i + 1, ms_users := map_set (ms_users ms) i newUser \<rparr>))"

definition MemStorage_createFolder :: "MemStorage \<Rightarrow> timestamp \<Rightarrow> InsertFolder \<Rightarrow> Folder \<times> MemStorage" where
  "MemStorage_createFolder ms now folder =
     (let i = ms_folderId ms;
          newFolder = \<lparr> f_id = i, f_name = if_name folder, f_description = if_description folder,
                        f_created_by = if_created_by folder, f_created_at = now \<rparr>
      in (newFolder, ms\<lparr> ms_folderId := i + 1, ms_folders := map_set (ms_folders ms) i newFolder \<rparr>))"

text \<open>The steps of \<open>createTestCase\<close>: \<open>steps.map((step, index) => ...)\<close> gives each step
  the next step id, the id of the case and the step number \<open>index + 1\<close>.\<close>

fun mem_steps :: "nat \<Rightarrow> nat \<Rightarrow> int \<Rightarrow> StepInput list \<Rightarrow> TestStep list" where
  "mem_steps stepId i index [] = []"
| "mem_steps stepId i index (step # steps) =
     \<lparr> ts_id = stepId, ts_test_case_id = i, ts_step_number = index + 1,
       ts_description = si_description step, ts_expected_result = si_expected_result step \<rparr>
     # mem_steps (stepId + 1) i (index + 1) steps"

definition MemStorage_createTestCase ::
  "MemStorage \<Rightarrow> timestamp \<times> timestamp \<Rightarrow> TestCaseWithSteps \<Rightarrow> TestCase \<times> MemStorage" where
  "MemStorage_createTestCase ms nows testCaseWithSteps =
     (let steps = tcs_steps testCaseWithSteps;
          testCase = tcs_testCase testCaseWithSteps;
          i = ms_test_case_id ms;
          newTestCase =
            \<lparr> tc_id = i, tc_title = itc_title testCase, tc_description = itc_description testCase,
              tc_status = itc_status testCase, tc_priority = itc_priority testCase,
              tc_type = itc_type testCase, tc_assigned_to = itc_assigned_to testCase,
              tc_created_by = itc_created_by testCase, tc_created_at = fst nows,
              tc_updated_at = snd nows, tc_last_run = None,
              tc_expected_result = itc_expected_result testCase, tc_version = 1 \<rparr>;
          ms1 = ms\<lparr> ms_test_case_id := i + 1,
                     ms_testCases := map_set (ms_testCases ms) i newTestCase \<rparr>
      in if length steps > 0
         then (newTestCase,
               ms1\<lparr> ms_testSteps := map_set (ms_testSteps ms1) i (mem_steps (ms_testStepId ms1) i 0 steps),
                     ms_testStepId := ms_testStepId ms1 + length steps \<rparr>)
         else (newTestCase, ms1))"

definition MemStorage_assignTestCaseToFolder ::
  "MemStorage \<Rightarrow> nat \<Rightarrow> nat \<Rightarrow> TestCaseFolder \<times> MemStorage" where
  "MemStorage_assignTestCaseToFolder ms test_case_id folderId =
     (let ms1 = (if \<not> map_has (ms_testCaseFolders ms) folderId
                 then ms\<lparr> ms_testCaseFolders := map_set (ms_testCaseFolders ms) folderId [] \<rparr>
                 else ms);
          folderSet = (case map_get (ms_testCaseFolders ms1) folderId of
                         None \<Rightarrow> [] | Some s \<Rightarrow> s)
      in if set_has folderSet test_case_id
         then (\<lparr> tcf_id = ms_testCaseFolderId ms1, tcf_test_case_id = test_case_id,
                  tcf_folderId = folderId \<rparr>,
               ms1\<lparr> ms_testCaseFolderId := ms_testCaseFolderId ms1 + 1 \<rparr>)
         else (\<lparr> tcf_id = ms_testCaseFolderId ms1, tcf_test_case_id = test_case_id,
                  tcf_folderId = folderId \<rparr>,
               ms1\<lparr> ms_testCaseFolders :=
                       map_set (ms_testCaseFolders ms1) folderId (set_add folderSet test_case_id),
                     ms_testCaseFolderId := ms_testCaseFolderId ms1 + 1 \<rparr>))"

definition MemStorage_removeTestCaseFromFolder ::
  "MemStorage \<Rightarrow> nat \<Rightarrow> nat \<Rightarrow> bool \<times> MemStorage" where
  "MemStorage_removeTestCaseFromFolder ms test_case_id folderId =
     (case map_get (ms_testCaseFolders ms) folderId of
        None \<Rightarrow> (False, ms)
      | Some folderSet \<Rightarrow>
          (fst (set_delete folderSet test_case_id),
           ms\<lparr> ms_testCaseFolders :=
                  map_set (ms_testCaseFolders ms) folderId (snd (set_delete folderSet test_case_id)) \<rparr>))"

text \<open>\<open>createTestRunResult\<close>: the first date is \<open>executed_at\<close> of the result, the second
  the \<open>last_run\<close> written to the test case.\<close>

definition MemStorage_createTestRunResult ::
  "MemStorage \<Rightarrow> timestamp \<times> timestamp \<Rightarrow> InsertTestRunResult \<Rightarrow> TestRunResult \<times> MemStorage" where
  "MemStorage_createTestRunResult ms nows result =
     (let i = ms_test_run_result_id ms;
          newResult = \<lparr> trr_id = i, trr_runId = itrr_runId result,
                        trr_test_case_id = itrr_test_case_id result, trr_status = itrr_status result,
                        trr_notes = itrr_notes result, trr_executed_by = itrr_executed_by result,
                        trr_executed_at = fst nows \<rparr>;
          results = (case map_get (ms_testRunResults ms) (itrr_runId result) of
                       None \<Rightarrow> [] | Some rs \<Rightarrow> rs);
          ms1 = ms\<lparr> ms_test_run_result_id := i + 1,
                     ms_testRunResults :=
                       map_set (ms_testRunResults ms) (itrr_runId result) (results @ [newResult]) \<rparr>
      in (case map_get (ms_testCases ms1) (itrr_test_case_id result) of
            None \<Rightarrow> (newResult, ms1)
          | Some testCase \<Rightarrow>
              (newResult,
               ms1\<lparr> ms_testCases :=
                       map_set (ms_testCases ms1) (itrr_test_case_id result)
                         (testCase\<lparr> tc_status := itrr_status result,
                                    tc_last_run := Some (snd nows) \<rparr>) \<rparr>)))"

definition MemStorage_logActivity ::
  "MemStorage \<Rightarrow> timestamp \<Rightarrow> InsertActivityLog \<Rightarrow> MemActivityLog \<times> MemStorage" where
  "MemStorage_logActivity ms now log =
     (let i = ms_activityLogId ms;
          newActivityLog = \<lparr> mal_id = i, mal_user_id = ial_user_id log,
                             mal_action = ial_action log, mal_entity_type = ial_entity_type log,
                             mal_entity_id = ial_entity_id log, mal_details = ial_details log,
                             mal_timestamp = now \<rparr>
      in (newActivityLog,
          ms\<lparr> ms_activityLogId := i + 1,
               ms_activityLogs := ms_activityLogs ms @ [newActivityLog] \<rparr>))"

subsection \<open>List and count operations\<close>

definition MemStorage_getUsers :: "MemStorage \<Rightarrow> User list" where
  "MemStorage_getUsers ms = map_values (ms_users ms)"

definition MemStorage_getFolders :: "MemStorage \<Rightarrow> Folder list" where
  "MemStorage_getFolders ms = map_values (ms_folders ms)"

text \<open>\<open>getTestCountByFolder\<close>: a pair is \<open>{ folderId, testCount }\<close>.\<close>

definition MemStorage_getTestCountByFolder :: "MemStorage \<Rightarrow> (nat \<times> nat) list" where
  "MemStorage_getTestCountByFolder ms =
     map (\<lambda>(folderId, test_case_ids). (folderId, length test_case_ids)) (ms_testCaseFolders ms)"

definition MemStorage_getTestCaseFolders :: "MemStorage \<Rightarrow> nat \<Rightarrow> Folder list" where
  "MemStorage_getTestCaseFolders ms test_case_id =
     concat (map (\<lambda>(folderId, test_case_ids).
                    if set_has test_case_ids test_case_id
                    then (case map_get (ms_folders ms) folderId of
                            None \<Rightarrow> [] | Some folder \<Rightarrow> [folder])
                    else [])
               (ms_testCaseFolders ms))"

text \<open>\<open>xs.sort((a, b) => b.t - a.t)\<close>: the stable sort by decreasing \<open>t\<close>.\<close>

definition sort_desc :: "('a \<Rightarrow> timestamp) \<Rightarrow> 'a list \<Rightarrow> 'a list" where
  "sort_desc t xs = sort_key (\<lambda>x. - int (t x)) xs"

definition MemStorage_getTestRuns :: "MemStorage \<Rightarrow> TestRun list" where
  "MemStorage_getTestRuns ms = sort_desc tr_started_at (map_values (ms_testRuns ms))"

definition MemStorage_getTestRunResults :: "MemStorage \<Rightarrow> nat \<Rightarrow> TestRunResult list" where
  "MemStorage_getTestRunResults ms runId =
     (case map_get (ms_testRunResults ms) runId of None \<Rightarrow> [] | Some rs \<Rightarrow> rs)"

text \<open>
  \<open>getTestStatusCounts\<close> counts in \<open>statusMap\<close>, a plain object used as a dictionary,
  so the rules of JavaScript objects apply to the status strings. A count is a number,
  which can be \<open>NaN\<close>. \<open>statusMap[status]\<close> reads an own property, or else a property
  inherited from \<open>Object.prototype\<close>, which is truthy. Incrementing an inherited method
  stores \<open>NaN\<close> as an own property; \<open>__proto__\<close> is an accessor whose setter ignores a
  number. \<open>NaN\<close> is falsy, so the next occurrence stores 1. \<open>for (status in statusMap)\<close>
  visits the own properties: the keys that are array indices in ascending order first,
  then the other keys in the order they were created. A pair is \<open>{ status, count }\<close>.
\<close>

datatype js_count = Count nat | NaN

definition object_prototype_names :: "string list" where
  "object_prototype_names =
     [''constructor'', ''__defineGetter__'', ''__defineSetter__'', ''hasOwnProperty'',
      ''__lookupGetter__'', ''__lookupSetter__'', ''isPrototypeOf'', ''propertyIsEnumerable'',
      ''toString'', ''valueOf'', ''__proto__'', ''toLocaleString'']"

definition count_status :: "(string, js_count) js_map \<Rightarrow> string \<Rightarrow> (string, js_count) js_map" where
  "count_status statusMap status =
     (case map_get statusMap status of
        Some (Count n) \<Rightarrow>
          (if n \<noteq> 0 then map_set statusMap status (Count (n + 1))
           else map_set statusMap status (Count 1))
      | Some NaN \<Rightarrow> map_set statusMap status (Count 1)
      | None \<Rightarrow>
          (if status \<in> set object_prototype_names
           then (if status = ''__proto__'' then statusMap else map_set statusMap status NaN)
           else map_set statusMap status (Count 1)))"

text \<open>An array index is the canonical decimal string of an integer from 0 to
  \<open>2^32 - 2\<close>.\<close>

definition is_digit :: "char \<Rightarrow> bool" where
  "is_digit c = (48 \<le> (of_char c :: int) \<and> (of_char c :: int) \<le> 57)"

definition decimal_value :: "string \<Rightarrow> int" where
  "decimal_value s = foldl (\<lambda>n c. 10 * n + ((of_char c :: int) - 48)) 0 s"

definition is_array_index :: "string \<Rightarrow> bool" where
  "is_array_index s =
     (s \<noteq> [] \<and> list_all is_digit s \<and> (length s = 1 \<or> hd s \<noteq> CHR ''0'')
      \<and> decimal_value s < 4294967295)"

definition for_in :: "(string, 'v) js_map \<Rightarrow> (string, 'v) js_map" where
  "for_in obj =
     sort_key (\<lambda>p. decimal_value (fst p)) (filter (\<lambda>p. is_array_index (fst p)) obj)
     @ filter (\<lambda>p. \<not> is_array_index (fst p)) obj"

definition MemStorage_getTestStatusCounts :: "MemStorage \<Rightarrow> (string \<times> js_count) list" where
  "MemStorage_getTestStatusCounts ms =
     for_in (foldl count_status [] (map tc_status (map_values (ms_testCases ms))))"

definition MemStorage_getTestStatusStats :: "MemStorage \<Rightarrow> (string \<times> js_count) list" where
  "MemStorage_getTestStatusStats ms = MemStorage_getTestStatusCounts ms"

text \<open>\<open>getBugs(filters?)\<close>: a filter that is absent, the empty string or 0 is falsy and
  selects every bug.\<close>

definition MemStorage_getBugs :: "MemStorage \<Rightarrow> (string option \<times> nat option) option \<Rightarrow> Bug list" where
  "MemStorage_getBugs ms filters =
     (let bugs = map_values (ms_bugs ms);
          bugs1 = (case filters of
                     Some (Some status, _) \<Rightarrow>
                       if status \<noteq> [] then filter (\<lambda>bug. b_status bug = status) bugs else bugs
                   | _ \<Rightarrow> bugs);
          bugs2 = (case filters of
                     Some (_, Some test_case_id) \<Rightarrow>
                       if test_case_id \<noteq> 0
                       then filter (\<lambda>bug. b_test_case_id bug = Some test_case_id) bugs1 else bugs1
                   | _ \<Rightarrow> bugs1)
      in sort_desc b_reported_at bugs2)"

definition MemStorage_getWhiteboards :: "MemStorage \<Rightarrow> Whiteboard list" where
  "MemStorage_getWhiteboards ms = sort_desc w_updated_at (map_values (ms_whiteboards ms))"

definition MemStorage_getAITestCases :: "MemStorage \<Rightarrow> nat \<Rightarrow> AITestCase list" where
  "MemStorage_getAITestCases ms userId =
     sort_desc ai_created_at
       (filter (\<lambda>aiTestCase. ai_created_by aiTestCase = userId) (map_values (ms_aiTestCases ms)))"

text \<open>\<open>getRecentActivities(limit)\<close>, for a limit that is a natural number: each log comes
  with the \<open>username\<close> and \<open>full_name\<close> of its user, "Unknown" for a missing user or an
  empty name.\<close>

definition or_unknown :: "string option \<Rightarrow> string" where
  "or_unknown s = (case s of None \<Rightarrow> ''Unknown'' | Some v \<Rightarrow> if v = [] then ''Unknown'' else v)"

definition MemStorage_getRecentActivities ::
  "MemStorage \<Rightarrow> nat \<Rightarrow> (MemActivityLog \<times> string \<times> string) list" where
  "MemStorage_getRecentActivities ms limit =
     sort_desc (\<lambda>a. mal_timestamp (fst a))
       (map (\<lambda>log. let user = map_get (ms_users ms) (mal_user_id log)
                    in (log, or_unknown (map_option u_username user),
                             or_unknown (map_option u_full_name user)))
          (take limit (ms_activityLogs ms)))"

text \<open>\<open>getRecentTestCases(limit)\<close>, for a limit that is a natural number.\<close>

definition MemStorage_getRecentTestCases :: "MemStorage \<Rightarrow> nat \<Rightarrow> TestCase list" where
  "MemStorage_getRecentTestCases ms limit =
     take limit (sort_desc tc_updated_at (map_values (ms_testCases ms)))"

subsection \<open>The constructor and its seed data\<close>

definition seed_admin :: InsertUser where
  "seed_admin =
     \<lparr> iu_username = ''admin'', iu_email = ''admin@example.com'', iu_password = ''password'',
       iu_full_name = ''System Admin'', iu_avatar = None, iu_role = ''system_owner'',
       iu_is_active = True \<rparr>"

definition seed_folder1 :: InsertFolder where
  "seed_folder1 = \<lparr> if_name = ''Regression Tests'',
                    if_description = Some ''Tests for regression testing'', if_created_by = Some 1 \<rparr>"

definition seed_folder2 :: InsertFolder where
  "seed_folder2 = \<lparr> if_name = ''Smoke Tests'',
                    if_description = Some ''Quick smoke tests'', if_created_by = Some 1 \<rparr>"

definition seed_folder3 :: InsertFolder where
  "seed_folder3 = \<lparr> if_name = ''Feature Tests'',
                    if_description = Some ''Feature specific tests'', if_created_by = Some 1 \<rparr>"

definition seed_step :: "int \<Rightarrow> string \<Rightarrow> string option \<Rightarrow> StepInput" where
  "seed_step n d e = \<lparr> si_step_number = n, si_description = d, si_expected_result = e \<rparr>"

definition seed_testCase1 :: TestCaseWithSteps where
  "seed_testCase1 =
     \<lparr> tcs_testCase =
         \<lparr> itc_title = ''User Login Verification'',
           itc_description = Some ''Verify that users can login with valid credentials'',
           itc_status = ''passed'', itc_priority = ''high'', itc_type = ''functional'',
           itc_assigned_to = Some 1, itc_created_by = 1,
           itc_expected_result = Some ''User should be logged in successfully'' \<rparr>,
       tcs_steps =
         [seed_step 1 ''Navigate to login page'' (Some ''Login page is displayed''),
          seed_step 2 ''Enter valid username and password'' (Some ''Credentials are accepted''),
          seed_step 3 ''Click on Login button'' (Some ''User is redirected to dashboard'')] \<rparr>"

definition seed_testCase2 :: TestCaseWithSteps where
  "seed_testCase2 =
     \<lparr> tcs_testCase =
         \<lparr> itc_title = ''Password Reset Flow'',
           itc_description = Some ''Test the complete password reset workflow'',
           itc_status = ''failed'', itc_priority = ''critical'', itc_type = ''functional'',
           itc_assigned_to = Some 1, itc_created_by = 1,
           itc_expected_result =
             Some ''Password reset email should be sent and new password should work'' \<rparr>,
       tcs_steps =
         [seed_step 1 ''Navigate to login page'' (Some ''Login page is displayed''),
          seed_step 2 ''Click on Forgot Password link'' (Some ''Reset page is displayed''),
          seed_step 3 ''Enter valid email address'' (Some ''Success message is shown''),
          seed_step 4 ''Check email and click reset link'' (Some ''Reset form is displayed''),
          seed_step 5 ''Enter new password and confirm'' (Some ''Password is updated'')] \<rparr>"

definition seed_testCase3 :: TestCaseWithSteps where
  "seed_testCase3 =
     \<lparr> tcs_testCase =
         \<lparr> itc_title = ''User Registration Form Validation'',
           itc_description = Some ''Validate all form fields during user registration'',
           itc_status = ''pending'', itc_priority = ''medium'', itc_type = ''functional'',
           itc_assigned_to = Some 1, itc_created_by = 1,
           itc_expected_result = Some ''Form should validate all fields correctly'' \<rparr>,
       tcs_steps =
         [seed_step 1
            ''Navigate to registration page          expected_result: Registration form is displayed''
            None,
          seed_step 2 ''Leave required fields empty and submit'' (Some ''Validation errors are shown''),
          seed_step 3 ''Enter invalid format for email'' (Some ''Email validation error is shown''),
          seed_step 4 ''Enter short password'' (Some ''Password validation error is shown''),
          seed_step 5 ''Enter valid details and submit'' (Some ''Registration is successful'')] \<rparr>"

text \<open>The constructor: \<open>clock k\<close> is the value of the k-th \<open>new Date()\<close> it evaluates
  (one for each folder, two for each test case).\<close>

definition MemStorage_constructor :: "(nat \<Rightarrow> timestamp) \<Rightarrow> MemStorage" where
  "MemStorage_constructor clock =
     (let ms1 = snd (MemStorage_createUser mem_initial seed_admin);
          ms2 = snd (MemStorage_createFolder ms1 (clock 0) seed_folder1);
          ms3 = snd (MemStorage_createFolder ms2 (clock 1) seed_folder2);
          ms4 = snd (MemStorage_createFolder ms3 (clock 2) seed_folder3);
          ms5 = snd (MemStorage_createTestCase ms4 (clock 3, clock 4) seed_testCase1);
          ms6 = snd (MemStorage_assignTestCaseToFolder ms5 1 1);
          ms7 = snd (MemStorage_createTestCase ms6 (clock 5, clock 6) seed_testCase2);
          ms8 = snd (MemStorage_assignTestCaseToFolder ms7 2 1);
          ms9 = snd (MemStorage_createTestCase ms8 (clock 7, clock 8) seed_testCase3)
      in snd (MemStorage_assignTestCaseToFolder ms9 3 2))"

definition seed_clock :: "nat \<Rightarrow> timestamp" where
  "seed_clock k = 1000 + k"

section \<open>Route handlers that log an activity\<close>

text \<open>
  The handlers run on the persistent adapter (the exported \<open>storage\<close>). An \<open>async\<close>
  method returns a promise; a method that throws rejects its promise, which is the \<open>Inl\<close>
  of its model. What a handler does with the promise of \<open>logActivity\<close> decides where a
  rejection goes: when the promise is awaited with a \<open>.catch\<close>, the rejection is passed to
  \<open>console.warn\<close>; when the call is neither awaited nor given a handler, no \<open>try/catch\<close>
  around the call and no \<open>catch\<close> of the handler can receive the rejection, and it is an
  unhandled rejection, left to the runtime (whose default, in Node.js from version 15 on,
  is to end the process with an error). The outcome of a handler is its response, the
  errors it warned about and the rejections it left unhandled.
\<close>

datatype 'a response = Status200 'a | Status201 'a | Status400 | Status500

record 'a outcome =
  out_response :: "'a response"
  out_warned :: "error list"
  out_unhandled :: "error list"

definition respond :: "'a response \<Rightarrow> 'a outcome" where
  "respond r = \<lparr> out_response = r, out_warned = [], out_unhandled = [] \<rparr>"

definition create_test_case_log :: "TestCase \<Rightarrow> InsertActivityLog" where
  "create_test_case_log testCase =
     \<lparr> ial_user_id = 1, ial_action = ''create_test_case'', ial_entity_type = ''test_case'',
       ial_entity_id = tc_id testCase,
       ial_details = Some (JObject [(''title'', JString (tc_title testCase))]) \<rparr>"

text \<open>
  The body of the handler of POST /api/testcases. The request body after
  \<open>testCaseWithStepsSchema.parse\<close> is an argument: \<open>None\<close> when the parse throws.
  \<open>createTestCase\<close> is awaited, so its error reaches the handler's \<open>catch\<close> (status 400).
  \<open>logActivity\<close> is called inside a \<open>try\<close> but without \<open>await\<close> and without a handler;
  the response is sent next. The flags are the store's answers to the two inserts of the
  creation and to the insert of the log.
\<close>

definition post_api_testcases ::
  "DB \<Rightarrow> (bool \<times> bool) \<times> bool \<Rightarrow> timestamp \<times> timestamp \<Rightarrow> TestCaseWithSteps option
     \<Rightarrow> TestCase outcome \<times> DB" where
  "post_api_testcases db errs nows parsed =
     (case parsed of
        None \<Rightarrow> (respond Status400, db)
      | Some data \<Rightarrow>
          (case SupabaseStorage_createTestCase db (fst errs) (fst nows) data of
             (Inl error, db1) \<Rightarrow> (respond Status400, db1)
           | (Inr testCase, db1) \<Rightarrow>
               (case SupabaseStorage_logActivity db1 (snd errs) (snd nows)
                       (create_test_case_log testCase) of
                  (Inl logError, db2) \<Rightarrow>
                    (\<lparr> out_response = Status201 testCase, out_warned = [],
                        out_unhandled = [logError] \<rparr>, db2)
                | (Inr log, db2) \<Rightarrow> (respond (Status201 testCase), db2))))"

definition generate_ai_test_cases_log :: "string \<Rightarrow> string \<Rightarrow> int \<Rightarrow> InsertActivityLog" where
  "generate_ai_test_cases_log prompt testType count =
     \<lparr> ial_user_id = 1, ial_action = ''generate_ai_test_cases'',
       ial_entity_type = ''ai_test_case'', ial_entity_id = 0,
       ial_details = Some (JObject [(''prompt'', JString prompt), (''testType'', JString testType),
                                    (''count'', JNumber count)]) \<rparr>"

text \<open>
  The body of the handler of POST /api/ai/generate-tests. The arguments are the request
  body after \<open>aiGenerateSchema.parse\<close> (\<open>None\<close> when the parse throws), whether
  GROQ_API_KEY is set, and what the awaited \<open>generateAITestCases\<close> gives (\<open>Inl\<close> when it
  throws). Here \<open>logActivity\<close> is awaited with a \<open>.catch\<close> that warns.
\<close>

definition post_api_ai_generate_tests ::
  "DB \<Rightarrow> bool \<Rightarrow> timestamp \<Rightarrow> (string \<times> string \<times> int) option \<Rightarrow> bool \<Rightarrow> error + json
     \<Rightarrow> json outcome \<times> DB" where
  "post_api_ai_generate_tests db logErr now parsed key_set generated =
     (case parsed of
        None \<Rightarrow> (respond Status400, db)
      | Some (prompt, testType, count) \<Rightarrow>
          (if \<not> key_set then (respond Status500, db)
           else (case generated of
                   Inl error \<Rightarrow> (respond Status400, db)
                 | Inr testCases \<Rightarrow>
                     (case SupabaseStorage_logActivity db logErr now
                             (generate_ai_test_cases_log prompt testType count) of
                        (Inl logError, db1) \<Rightarrow>
                          (\<lparr> out_response = Status200 testCases, out_warned = [logError],
                              out_unhandled = [] \<rparr>, db1)
                      | (Inr log, db1) \<Rightarrow> (respond (Status200 testCases), db1)))))"

section \<open>Scenarios\<close>

text \<open>A run of updates of one test case, each with its own body, steps and answers of the
  store; the results of the calls are collected in order.\<close>

fun update_all ::
  "DB \<Rightarrow> nat \<Rightarrow> ((bool \<times> bool \<times> bool) \<times> TestCasePatch \<times> InsertTestStep list option) list
     \<Rightarrow> TestCase option list \<times> DB" where
  "update_all db i [] = ([], db)"
| "update_all db i ((errs, data, steps) # us) =
     (case SupabaseStorage_updateTestCase db errs i data steps of
        (r, db1) \<Rightarrow> (case update_all db1 i us of (rs, db2) \<Rightarrow> (r # rs, db2)))"

text \<open>The columns of a stored step that the caller supplied (all but the id).\<close>

definition step_fields :: "TestStep \<Rightarrow> InsertTestStep" where
  "step_fields s =
     \<lparr> its_test_case_id = ts_test_case_id s, its_step_number = ts_step_number s,
       its_description = ts_description s, its_expected_result = ts_expected_result s \<rparr>"

definition version_key :: "TestCase \<Rightarrow> nat \<times> int" where
  "version_key r = (tc_id r, tc_version r)"

text \<open>The test case of the specification's scenario: "Login" with two steps.\<close>

definition login :: TestCaseWithSteps where
  "login =
     \<lparr> tcs_testCase =
         \<lparr> itc_title = ''Login'', itc_description = None, itc_status = ''pending'',
           itc_priority = ''medium'', itc_type = ''functional'', itc_assigned_to = None,
           itc_created_by = 1, itc_expected_result = None \<rparr>,
       tcs_steps =
         [\<lparr> si_step_number = 1, si_description = ''open page'', si_expected_result = None \<rparr>,
          \<lparr> si_step_number = 2, si_description = ''submit creds'', si_expected_result = None \<rparr>] \<rparr>"

definition login_row :: TestCase where
  "login_row = new_test_case_row 1 1000 (tcs_testCase login)"

definition db_login :: DB where
  "db_login = snd (SupabaseStorage_createTestCase empty_db (False, False) 1000 login)"

definition no_patch :: TestCasePatch where
  "no_patch =
     \<lparr> p_title = None, p_description = None, p_status = None, p_priority = None,
       p_type = None, p_assigned_to = None, p_created_by = None, p_expected_result = None \<rparr>"

definition retitle :: "string \<Rightarrow> TestCasePatch" where
  "retitle t = no_patch\<lparr> p_title := Some t \<rparr>"

definition no_errors :: "bool \<times> bool \<times> bool" where
  "no_errors = (False, False, False)"

text \<open>A step list with the one step "open page"; its test_case_id is overwritten by
  \<open>updateTestCase\<close>.\<close>

definition one_step :: "InsertTestStep list" where
  "one_step =
     [\<lparr> its_test_case_id = 1, its_step_number = 1, its_description = ''open page'',
        its_expected_result = None \<rparr>]"

text \<open>A result "failed" of run 1 for a test case.\<close>

definition failed_result :: "nat \<Rightarrow> InsertTestRunResult" where
  "failed_result test_case_id =
     \<lparr> itrr_runId = 1, itrr_test_case_id = test_case_id, itrr_status = ''failed'',
       itrr_notes = None, itrr_executed_by = 1 \<rparr>"

text \<open>A store with one test case (id 1) that has three steps and is in two folders. The
  persistent adapter has no operation that assigns a folder, so the two rows of
  test_case_folders are given.\<close>

definition db_cascade :: DB where
  "db_cascade =
     (snd (SupabaseStorage_createTestCase empty_db (False, False) 1000 seed_testCase1))
       \<lparr> test_case_folders :=
           [\<lparr> tcf_id = 1, tcf_test_case_id = 1, tcf_folderId = 1 \<rparr>,
            \<lparr> tcf_id = 2, tcf_test_case_id = 1, tcf_folderId = 2 \<rparr>] \<rparr>"

text \<open>A store whose test case 1 has the title "Login v3" and two snapshots recorded with
  \<open>createTestVersion\<close>, numbered 2 and 3 as the specification numbers them: the one
  numbered 2 holds the title before the first update, the one numbered 3 the title before
  the second.\<close>

definition snapshot :: "int \<Rightarrow> string \<Rightarrow> InsertTestVersion" where
  "snapshot n t =
     \<lparr> itv_test_case_id = 1, itv_version = n, itv_data = login_row\<lparr> tc_title := t \<rparr>,
       itv_created_by = 1, itv_change_comment = None \<rparr>"

definition db_history :: DB where
  "db_history =
     snd (SupabaseStorage_createTestVersion
            (snd (SupabaseStorage_createTestVersion
                    (snd (SupabaseStorage_updateTestCase db_login no_errors 1 (retitle ''Login v3'') None))
                    False 2000 (snapshot 2 ''Login v1'')))
            False 3000 (snapshot 3 ''Login v2''))"

text \<open>The scenario test case after two successful updates of its title.\<close>

definition db_updated_twice :: DB where
  "db_updated_twice =
     snd (update_all db_login 1
            [(no_errors, retitle ''Login v2'', None), (no_errors, retitle ''Login v3'', None)])"

text \<open>The members of a folder in the in-memory adapter, the number of times a test case
  occurs among them, and the property of a \<open>Set\<close> that no member occurs twice.\<close>

definition folder_set :: "MemStorage \<Rightarrow> nat \<Rightarrow> nat list" where
  "folder_set ms folderId = (case map_get (ms_testCaseFolders ms) folderId of None \<Rightarrow> [] | Some s \<Rightarrow> s)"

definition association_count :: "MemStorage \<Rightarrow> nat \<Rightarrow> nat \<Rightarrow> nat" where
  "association_count ms test_case_id folderId = count_list (folder_set ms folderId) test_case_id"

definition folder_sets_distinct :: "MemStorage \<Rightarrow> bool" where
  "folder_sets_distinct ms = list_all (\<lambda>(f, s). distinct s) (ms_testCaseFolders ms)"

section \<open>Properties of the persistent adapter\<close>

subsection \<open>Steps of an update\<close>

lemma number_steps_same_case:
  "\<forall>s\<in>set rows. its_test_case_id s = i \<Longrightarrow>
   filter (\<lambda>s. ts_test_case_id s = i) (number_steps k rows) = number_steps k rows"
  by (induction rows arbitrary: k) (auto simp: new_test_step_row_def)

lemma number_steps_other_case:
  "\<forall>s\<in>set rows. its_test_case_id s = i \<Longrightarrow>
   filter (\<lambda>s. ts_test_case_id s \<noteq> i) (number_steps k rows) = []"
  by (induction rows arbitrary: k) (auto simp: new_test_step_row_def)

lemma step_fields_number_steps: "map step_fields (number_steps k rows) = rows"
  by (induction rows arbitrary: k) (auto simp: new_test_step_row_def step_fields_def)

lemma updateTestCase_without_steps:
  "test_steps (snd (SupabaseStorage_updateTestCase db errs i data None)) = test_steps db"
  by (auto simp: SupabaseStorage_updateTestCase_def update_test_cases_single_def
        update_test_cases_def split: prod.splits sum.splits option.splits if_splits)

lemma updateTestCase_with_steps:
  assumes "SupabaseStorage_updateTestCase db errs i data (Some ss) = (Some t, db')"
  shows "test_steps db' =
           filter (\<lambda>s. ts_test_case_id s \<noteq> i) (test_steps db)
           @ number_steps (seq_test_steps db) (map (\<lambda>step. step\<lparr> its_test_case_id := i \<rparr>) ss)"
  using assms
  by (auto simp: SupabaseStorage_updateTestCase_def update_test_cases_single_def
        update_test_cases_def delete_test_steps_def insert_test_steps_def
      split: prod.splits sum.splits option.splits if_splits)

subsection \<open>Version and history under updates\<close>

lemma version_key_apply_patch: "version_key (apply_patch p r) = version_key r"
  by (simp add: version_key_def apply_patch_def)

lemma getTestCase_version_key:
  "map_option tc_version (SupabaseStorage_getTestCase db e j) =
     (if e then None
      else case filter (\<lambda>k. fst k = j) (map version_key (test_cases db)) of
             [k] \<Rightarrow> Some (snd k) | _ \<Rightarrow> None)"
proof -
  have f: "filter (\<lambda>k. fst k = j) (map version_key xs)
             = map version_key (filter (\<lambda>r. tc_id r = j) xs)" for xs
    by (induction xs) (auto simp: version_key_def)
  show ?thesis
    by (cases "filter (\<lambda>r. tc_id r = j) (test_cases db)")
       (auto simp: SupabaseStorage_getTestCase_def single_def f version_key_def
          split: list.splits)
qed

lemma updateTestCase_key:
  "map version_key (test_cases (snd (SupabaseStorage_updateTestCase db errs i data steps)))
     = map version_key (test_cases db)"
  by (auto simp: SupabaseStorage_updateTestCase_def update_test_cases_single_def
        update_test_cases_def delete_test_steps_def insert_test_steps_def
        version_key_apply_patch
      split: prod.splits sum.splits option.splits if_splits)

lemma updateTestCase_versions:
  "test_versions (snd (SupabaseStorage_updateTestCase db errs i data steps)) = test_versions db"
  by (auto simp: SupabaseStorage_updateTestCase_def update_test_cases_single_def
        update_test_cases_def delete_test_steps_def insert_test_steps_def
      split: prod.splits sum.splits option.splits if_splits)

lemma updated_row_version:
  "SupabaseStorage_updateTestCase db errs i data steps = (Some t, db') \<Longrightarrow>
   map_option tc_version (SupabaseStorage_getTestCase db False i) = Some (tc_version t)"
  by (auto simp: SupabaseStorage_updateTestCase_def update_test_cases_single_def
        update_test_cases_def delete_test_steps_def insert_test_steps_def
        SupabaseStorage_getTestCase_def single_def apply_patch_def
      split: prod.splits sum.splits option.splits if_splits list.splits)

lemma createTestCase_version:
  "SupabaseStorage_createTestCase db errs now tcs = (Inr t, db') \<Longrightarrow>
   tc_version t = 1 \<and> test_versions db' = test_versions db"
  by (auto simp: SupabaseStorage_createTestCase_def insert_test_case_def
        insert_test_steps_def new_test_case_row_def Let_def
      split: prod.splits sum.splits option.splits if_splits list.splits)

lemma update_all_key:
  "map version_key (test_cases (snd (update_all db i us))) = map version_key (test_cases db)
   \<and> test_versions (snd (update_all db i us)) = test_versions db"
proof (induction us arbitrary: db)
  case Nil
  then show ?case by simp
next
  case (Cons u us)
  obtain errs data steps where u: "u = (errs, data, steps)" by (cases u) auto
  obtain r db1 where s: "SupabaseStorage_updateTestCase db errs i data steps = (r, db1)"
    by fastforce
  have k: "map version_key (test_cases db1) = map version_key (test_cases db)"
    using updateTestCase_key [of db errs i data steps] s by simp
  have v: "test_versions db1 = test_versions db"
    using updateTestCase_versions [of db errs i data steps] s by simp
  show ?case using Cons.IH [of db1] k v u s by (auto split: prod.splits)
qed

lemma update_all_results:
  "list_all (\<lambda>r. r = None \<or> map_option tc_version r = map_option tc_version (SupabaseStorage_getTestCase db False i))
     (fst (update_all db i us))"
proof (induction us arbitrary: db)
  case Nil
  then show ?case by simp
next
  case (Cons u us)
  obtain errs data steps where u: "u = (errs, data, steps)" by (cases u) auto
  obtain r db1 where s: "SupabaseStorage_updateTestCase db errs i data steps = (r, db1)"
    by fastforce
  have k: "map version_key (test_cases db1) = map version_key (test_cases db)"
    using updateTestCase_key [of db errs i data steps] s by simp
  have g: "map_option tc_version (SupabaseStorage_getTestCase db1 False i)
         = map_option tc_version (SupabaseStorage_getTestCase db False i)"
    by (simp only: getTestCase_version_key k)
  have r: "r = None \<or> map_option tc_version r = map_option tc_version (SupabaseStorage_getTestCase db False i)"
    using updated_row_version [of db errs i data steps _ db1] s by (cases r) auto
  show ?case using Cons.IH [of db1] g r u s by (auto split: prod.splits)
qed

subsection \<open>The scenario store\<close>

lemma create_login: "SupabaseStorage_createTestCase empty_db (False, False) 1000 login = (Inr login_row, db_login)"
  by (simp add: db_login_def login_row_def SupabaseStorage_createTestCase_def insert_test_case_def
       insert_test_steps_def empty_db_def login_def Let_def)

lemma db_login_eq:
  "db_login = empty_db\<lparr> test_cases := [login_row],
       test_steps := number_steps 1 (map (step_for_case 1) (tcs_steps login)),
       seq_test_cases := 2, seq_test_steps := 3 \<rparr>"
  by (simp add: db_login_def login_row_def SupabaseStorage_createTestCase_def insert_test_case_def
       insert_test_steps_def empty_db_def login_def Let_def new_test_case_row_def)

subsection \<open>Claim C8: the steps argument of updateTestCase\<close>

lemma single_Inr: "single xs = Inr r \<Longrightarrow> xs = [r]"
  by (cases xs) (auto simp: single_def split: list.splits)

lemma updateTestCase_succeeds_with_steps:
  assumes g: "SupabaseStorage_getTestCase db False i = Some t0"
  shows "SupabaseStorage_updateTestCase db no_errors i data (Some ss)
     = (Some (apply_patch data t0),
        db\<lparr> test_cases := map (\<lambda>r. if tc_id r = i then apply_patch data r else r) (test_cases db),
            test_steps := filter (\<lambda>s. ts_test_case_id s \<noteq> i) (test_steps db)
               @ number_steps (seq_test_steps db) (map (\<lambda>step. step\<lparr> its_test_case_id := i \<rparr>) ss),
            seq_test_steps := seq_test_steps db + length ss \<rparr>)"
proof -
  have "single (filter (\<lambda>r. tc_id r = i) (test_cases db)) = Inr t0"
    using g by (simp add: SupabaseStorage_getTestCase_def split: sum.splits)
  then have f: "filter (\<lambda>r. tc_id r = i) (test_cases db) = [t0]" by (rule single_Inr)
  show ?thesis
    by (simp add: SupabaseStorage_updateTestCase_def update_test_cases_single_def
          update_test_cases_def delete_test_steps_def insert_test_steps_def no_errors_def f
          single_def)
qed

lemma updateTestCase_succeeds_without_steps:
  assumes g: "SupabaseStorage_getTestCase db False i = Some t0"
  shows "SupabaseStorage_updateTestCase db no_errors i data None
     = (Some (apply_patch data t0),
        db\<lparr> test_cases := map (\<lambda>r. if tc_id r = i then apply_patch data r else r) (test_cases db) \<rparr>)"
proof -
  have "single (filter (\<lambda>r. tc_id r = i) (test_cases db)) = Inr t0"
    using g by (simp add: SupabaseStorage_getTestCase_def split: sum.splits)
  then have f: "filter (\<lambda>r. tc_id r = i) (test_cases db) = [t0]" by (rule single_Inr)
  show ?thesis
    by (simp add: SupabaseStorage_updateTestCase_def update_test_cases_single_def
          update_test_cases_def no_errors_def f single_def)
qed

lemma updateTestCase_not_found:
  assumes g: "SupabaseStorage_getTestCase db False i = None"
  shows "fst (SupabaseStorage_updateTestCase db errs i data steps) = None \<and>
         test_steps (snd (SupabaseStorage_updateTestCase db errs i data steps)) = test_steps db"
proof -
  have e: "a = BackendError" for a :: error by (cases a) simp
  have n: "single (filter (\<lambda>r. tc_id r = i) (test_cases db)) = Inl BackendError"
    using g e by (cases "single (filter (\<lambda>r. tc_id r = i) (test_cases db))")
                 (auto simp: SupabaseStorage_getTestCase_def)
  have "single (map f xs) = Inl BackendError" if "single xs = Inl BackendError"
    for f :: "TestCase \<Rightarrow> TestCase" and xs
    using that by (cases xs) (auto simp: single_def split: list.splits)
  then have m: "single (map (apply_patch data) (filter (\<lambda>r. tc_id r = i) (test_cases db)))
                  = Inl BackendError"
    using n by blast
  show ?thesis
    by (simp add: SupabaseStorage_updateTestCase_def update_test_cases_single_def
          update_test_cases_def m)
qed

text \<open>
  C8. \<open>updateTestCase(id, patch, steps?)\<close> treats \<open>steps\<close> as optional. When it is
  omitted, the test_steps table is left as it was, whatever the store answers. When it is
  present, also as the empty array, and the call succeeds, every step row of the case has
  been deleted and the supplied steps inserted under the case's id: the table is the rows
  of the other cases followed by the new rows, the steps read back for the case are
  exactly the supplied ones, and the steps of other cases are untouched. And the call does
  succeed whenever the test case exists and the store reports no error: with a step
  array it returns the patched row and leaves the store with the patched row, the step
  rows of the other cases followed by one new row for each supplied step, and the step
  sequence advanced by their number; without the array it returns the patched row and
  changes the row only. When the test case does not exist, the call returns
  \<open>undefined\<close> and leaves the step rows as they were, with or without a step array.
\<close>

theorem updateTestCase_steps_optional:
  "test_steps (snd (SupabaseStorage_updateTestCase db errs i data None)) = test_steps db \<and>
   (SupabaseStorage_updateTestCase db errs i data (Some ss) = (Some t, db') \<longrightarrow>
      test_steps db' =
        filter (\<lambda>s. ts_test_case_id s \<noteq> i) (test_steps db)
        @ number_steps (seq_test_steps db) (map (\<lambda>step. step\<lparr> its_test_case_id := i \<rparr>) ss) \<and>
      map step_fields (SupabaseStorage_getTestSteps db' False i)
        = map (\<lambda>step. step\<lparr> its_test_case_id := i \<rparr>) ss \<and>
      filter (\<lambda>s. ts_test_case_id s \<noteq> i) (test_steps db')
        = filter (\<lambda>s. ts_test_case_id s \<noteq> i) (test_steps db)) \<and>
   (SupabaseStorage_getTestCase db False i = Some t0 \<longrightarrow>
      SupabaseStorage_updateTestCase db no_errors i data (Some ss)
        = (Some (apply_patch data t0),
           db\<lparr> test_cases :=
                 map (\<lambda>r. if tc_id r = i then apply_patch data r else r) (test_cases db),
               test_steps :=
                 filter (\<lambda>s. ts_test_case_id s \<noteq> i) (test_steps db)
                 @ number_steps (seq_test_steps db)
                     (map (\<lambda>step. step\<lparr> its_test_case_id := i \<rparr>) ss),
               seq_test_steps := seq_test_steps db + length ss \<rparr>) \<and>
      SupabaseStorage_updateTestCase db no_errors i data None
        = (Some (apply_patch data t0),
           db\<lparr> test_cases :=
                 map (\<lambda>r. if tc_id r = i then apply_patch data r else r) (test_cases db) \<rparr>)) \<and>
   (SupabaseStorage_getTestCase db False i = None \<longrightarrow>
      fst (SupabaseStorage_updateTestCase db errs i data steps) = None \<and>
      test_steps (snd (SupabaseStorage_updateTestCase db errs i data steps)) = test_steps db)"
proof -
  let ?rows = "map (\<lambda>step. step\<lparr> its_test_case_id := i \<rparr>) ss"
  have own: "\<forall>s\<in>set ?rows. its_test_case_id s = i" by simp
  {
    assume u: "SupabaseStorage_updateTestCase db errs i data (Some ss) = (Some t, db')"
    have eq: "test_steps db' =
        filter (\<lambda>s. ts_test_case_id s \<noteq> i) (test_steps db) @ number_steps (seq_test_steps db) ?rows"
      by (rule updateTestCase_with_steps [OF u])
    have a: "map step_fields (SupabaseStorage_getTestSteps db' False i) = ?rows"
      by (simp add: SupabaseStorage_getTestSteps_def eq number_steps_same_case [OF own]
            step_fields_number_steps)
    have b: "filter (\<lambda>s. ts_test_case_id s \<noteq> i) (test_steps db')
        = filter (\<lambda>s. ts_test_case_id s \<noteq> i) (test_steps db)"
      by (simp add: eq number_steps_other_case [OF own])
    note eq a b
  }
  then show ?thesis
    using updateTestCase_without_steps [of db errs i data]
      updateTestCase_succeeds_with_steps [of db i t0 data ss]
      updateTestCase_succeeds_without_steps [of db i t0 data]
      updateTestCase_not_found [of db i errs data steps]
    by blast
qed

text \<open>The witness: on the scenario store (a case with the two steps "open page" and
  "submit creds") an update with the one step "open page" succeeds and leaves the case
  with exactly that step, in a new row; an update with the empty array succeeds and
  leaves the case without steps; an update without the argument leaves the two steps;
  an update of test case 7, which does not exist, returns \<open>undefined\<close> and leaves the
  steps.\<close>

theorem updateTestCase_steps_optional_witness:
  "SupabaseStorage_getTestCase db_login False 1 = Some login_row \<and>
   map ts_description (SupabaseStorage_getTestSteps db_login False 1)
     = [''open page'', ''submit creds''] \<and>
   fst (SupabaseStorage_updateTestCase db_login no_errors 1 no_patch (Some one_step))
     = Some login_row \<and>
   SupabaseStorage_getTestSteps
       (snd (SupabaseStorage_updateTestCase db_login no_errors 1 no_patch (Some one_step))) False 1
     = [\<lparr> ts_id = 3, ts_test_case_id = 1, ts_step_number = 1, ts_description = ''open page'',
          ts_expected_result = None \<rparr>] \<and>
   seq_test_steps (snd (SupabaseStorage_updateTestCase db_login no_errors 1 no_patch (Some one_step)))
     = 4 \<and>
   fst (SupabaseStorage_updateTestCase db_login no_errors 1 no_patch (Some [])) = Some login_row \<and>
   SupabaseStorage_getTestSteps
       (snd (SupabaseStorage_updateTestCase db_login no_errors 1 no_patch (Some []))) False 1
     = [] \<and>
   map ts_description (SupabaseStorage_getTestSteps
       (snd (SupabaseStorage_updateTestCase db_login no_errors 1 no_patch None)) False 1)
     = [''open page'', ''submit creds''] \<and>
   SupabaseStorage_getTestCase db_login False 7 = None \<and>
   fst (SupabaseStorage_updateTestCase db_login no_errors 7 no_patch (Some [])) = None \<and>
   test_steps (snd (SupabaseStorage_updateTestCase db_login no_errors 7 no_patch (Some [])))
     = test_steps db_login"
proof -
  let ?db1 = "snd (SupabaseStorage_updateTestCase db_login no_errors 1 no_patch (Some one_step))"
  have g: "SupabaseStorage_getTestCase db_login False 1 = Some login_row" by code_simp
  have l: "map ts_description (SupabaseStorage_getTestSteps db_login False 1)
     = [''open page'', ''submit creds'']" by code_simp
  have u: "SupabaseStorage_updateTestCase db_login no_errors 1 no_patch (Some one_step)
     = (Some login_row, ?db1)" by code_simp
  have p: "apply_patch no_patch login_row = login_row" by code_simp
  have s1: "number_steps 3 (map (\<lambda>step. step\<lparr> its_test_case_id := 1 \<rparr>) one_step)
     = [\<lparr> ts_id = 3, ts_test_case_id = 1, ts_step_number = 1, ts_description = ''open page'',
          ts_expected_result = None \<rparr>]" by code_simp
  have q: "seq_test_steps db_login = 3" by code_simp
  have o: "filter (\<lambda>s. ts_test_case_id s \<noteq> 1) (test_steps db_login) = []" by code_simp
  have n: "length one_step = 1" by code_simp
  have a: "SupabaseStorage_updateTestCase db_login no_errors 1 no_patch (Some one_step)
     = (Some login_row,
        db_login\<lparr> test_cases :=
              map (\<lambda>r. if tc_id r = 1 then apply_patch no_patch r else r) (test_cases db_login),
            test_steps :=
              [\<lparr> ts_id = 3, ts_test_case_id = 1, ts_step_number = 1,
                 ts_description = ''open page'', ts_expected_result = None \<rparr>],
            seq_test_steps := 4 \<rparr>)"
    using updateTestCase_steps_optional
      [of db_login no_errors 1 no_patch one_step login_row ?db1 login_row] g u p s1 q o n
    by simp
  have b: "SupabaseStorage_updateTestCase db_login no_errors 1 no_patch (Some [])
     = (Some login_row,
        db_login\<lparr> test_cases :=
              map (\<lambda>r. if tc_id r = 1 then apply_patch no_patch r else r) (test_cases db_login),
            test_steps := [], seq_test_steps := 3 \<rparr>)"
    using updateTestCase_steps_optional
      [of db_login no_errors 1 no_patch "[]" login_row ?db1 login_row] g p q o
    by simp
  have c: "test_steps (snd (SupabaseStorage_updateTestCase db_login no_errors 1 no_patch None))
     = test_steps db_login"
    using updateTestCase_steps_optional
      [of db_login no_errors 1 no_patch "[]" login_row ?db1 login_row]
    by simp
  have m: "SupabaseStorage_getTestCase db_login False 7 = None" by code_simp
  have d: "fst (SupabaseStorage_updateTestCase db_login no_errors 7 no_patch (Some [])) = None \<and>
     test_steps (snd (SupabaseStorage_updateTestCase db_login no_errors 7 no_patch (Some [])))
       = test_steps db_login"
    using updateTestCase_steps_optional
      [of db_login no_errors 7 no_patch "[]" login_row ?db1 login_row "Some []"] m
    by simp
  show ?thesis
    using g l c a b m d by (simp add: SupabaseStorage_getTestSteps_def)
qed

subsection \<open>Claim C1: version and history after updates\<close>

text \<open>
  C1 (as the code has it). \<open>updateTestCase\<close> neither increments \<open>version\<close> nor
  records a TestVersion snapshot. A test case is created at version 1 and creation writes
  no snapshot; after any run of N updates of a test case, successful or not, the version
  read back for every test case is what it was before the run, the snapshots read back
  are the same rows, and every successful update returned a row that carries the version
  the test case had before the run. So a created test case is still at version 1 with no
  snapshot after N successful updates.
\<close>

theorem updateTestCase_keeps_version_and_history:
  "(SupabaseStorage_createTestCase db0 errs0 now tcs = (Inr t, db) \<longrightarrow>
      tc_version t = 1 \<and> test_versions db = test_versions db0) \<and>
   map_option tc_version (SupabaseStorage_getTestCase (snd (update_all db i us)) e j)
     = map_option tc_version (SupabaseStorage_getTestCase db e j) \<and>
   SupabaseStorage_getTestVersions (snd (update_all db i us)) e j
     = SupabaseStorage_getTestVersions db e j \<and>
   list_all (\<lambda>r. r = None \<or> map_option tc_version r
                     = map_option tc_version (SupabaseStorage_getTestCase db False i))
     (fst (update_all db i us))"
proof -
  have a: "SupabaseStorage_createTestCase db0 errs0 now tcs = (Inr t, db) \<longrightarrow>
      tc_version t = 1 \<and> test_versions db = test_versions db0"
    using createTestCase_version [of db0 errs0 now tcs t db] by blast
  have b: "map_option tc_version (SupabaseStorage_getTestCase (snd (update_all db i us)) e j)
     = map_option tc_version (SupabaseStorage_getTestCase db e j)"
    using update_all_key [of db i us] by (simp only: getTestCase_version_key)
  have c: "SupabaseStorage_getTestVersions (snd (update_all db i us)) e j
     = SupabaseStorage_getTestVersions db e j"
    using update_all_key [of db i us] by (simp add: SupabaseStorage_getTestVersions_def)
  show ?thesis using a b c update_all_results [of db i us] by blast
qed

text \<open>The witness: the scenario test case is created at version 1; two successful
  updates (a new title, then an empty step list) leave it at version 1 with no snapshot.\<close>

theorem updateTestCase_keeps_version_and_history_witness:
  "SupabaseStorage_createTestCase empty_db (False, False) 1000 login = (Inr login_row, db_login) \<and>
   tc_version login_row = 1 \<and>
   fst (update_all db_login 1 [(no_errors, retitle ''Sign in'', None), (no_errors, no_patch, Some [])])
     = [Some (login_row\<lparr> tc_title := ''Sign in'' \<rparr>), Some (login_row\<lparr> tc_title := ''Sign in'' \<rparr>)] \<and>
   map_option tc_version (SupabaseStorage_getTestCase
       (snd (update_all db_login 1 [(no_errors, retitle ''Sign in'', None), (no_errors, no_patch, Some [])])) False 1)
     = Some 1 \<and>
   SupabaseStorage_getTestVersions
       (snd (update_all db_login 1 [(no_errors, retitle ''Sign in'', None), (no_errors, no_patch, Some [])])) False 1
     = []"
proof -
  have c: "SupabaseStorage_createTestCase empty_db (False, False) 1000 login = (Inr login_row, db_login)"
    by (rule create_login)
  have g: "map_option tc_version (SupabaseStorage_getTestCase db_login False 1) = Some 1"
    by (simp add: db_login_eq SupabaseStorage_getTestCase_def single_def empty_db_def login_row_def new_test_case_row_def)
  have v: "SupabaseStorage_getTestVersions db_login False 1 = []"
    by (simp add: db_login_eq SupabaseStorage_getTestVersions_def empty_db_def)
  have r: "fst (update_all db_login 1 [(no_errors, retitle ''Sign in'', None), (no_errors, no_patch, Some [])])
     = [Some (login_row\<lparr> tc_title := ''Sign in'' \<rparr>), Some (login_row\<lparr> tc_title := ''Sign in'' \<rparr>)]"
    by (simp add: db_login_eq SupabaseStorage_updateTestCase_def update_test_cases_single_def
        update_test_cases_def delete_test_steps_def insert_test_steps_def single_def empty_db_def
        login_row_def new_test_case_row_def no_errors_def retitle_def no_patch_def apply_patch_def login_def)
  show ?thesis
    using updateTestCase_keeps_version_and_history
      [of empty_db "(False, False)" 1000 login login_row db_login 1
          "[(no_errors, retitle ''Sign in'', None), (no_errors, no_patch, Some [])]" False 1]
      c g v r by simp
qed

text \<open>
  C1 as stated fails: after one successful content-changing update (N = 1) of the scenario
  test case, the version is 1 and not N + 1 = 2, and no snapshot exists instead of one.
\<close>

theorem version_after_update_counterexample:
  "fst (SupabaseStorage_updateTestCase db_login no_errors 1 (retitle ''Sign in'') None)
     = Some (login_row\<lparr> tc_title := ''Sign in'' \<rparr>) \<and>
   tc_version (login_row\<lparr> tc_title := ''Sign in'' \<rparr>) \<noteq> 1 + 1 \<and>
   length (SupabaseStorage_getTestVersions
       (snd (SupabaseStorage_updateTestCase db_login no_errors 1 (retitle ''Sign in'') None)) False 1) \<noteq> 1"
  by (simp add: db_login_eq SupabaseStorage_updateTestCase_def update_test_cases_single_def
        update_test_cases_def single_def empty_db_def SupabaseStorage_getTestVersions_def
        login_row_def new_test_case_row_def no_errors_def retitle_def no_patch_def apply_patch_def login_def)

subsection \<open>Claim C4: reverting after two updates\<close>

lemma single_snoc: "single (xs @ [t]) = Inr r \<Longrightarrow> r = t"
  by (cases xs) (auto simp: single_def split: list.splits)

lemma createTestCase_row:
  assumes "SupabaseStorage_createTestCase db errs now tcs = (Inr t, db')"
  shows "test_cases db' = test_cases db @ [t] \<and> tc_version t = 1 \<and> test_versions db' = test_versions db"
  using assms
  by (auto simp: SupabaseStorage_createTestCase_def insert_test_case_def
        insert_test_steps_def new_test_case_row_def Let_def
      split: prod.splits sum.splits option.splits if_splits)

lemma created_version_read:
  assumes c: "SupabaseStorage_createTestCase db errs now tcs = (Inr t, db')"
    and g: "SupabaseStorage_getTestCase db' False (tc_id t) = Some r"
  shows "tc_version r = 1"
proof -
  have rows: "test_cases db' = test_cases db @ [t]" and v: "tc_version t = 1"
    using createTestCase_row [OF c] by simp_all
  have "single (filter (\<lambda>x. tc_id x = tc_id t) (test_cases db) @ [t]) = Inr r"
    using g by (simp add: SupabaseStorage_getTestCase_def rows split: sum.splits)
  then have "r = t" by (rule single_snoc)
  then show ?thesis using v by simp
qed

lemma updateTestCase_read_back:
  assumes "SupabaseStorage_updateTestCase db errs i data steps = (Some t, db')"
  shows "SupabaseStorage_getTestCase db' False i = Some t"
proof -
  have idp: "tc_id (apply_patch data r) = tc_id r" for r by (simp add: apply_patch_def)
  have f: "filter (\<lambda>r. tc_id r = i) (map (\<lambda>r. if tc_id r = i then apply_patch data r else r) xs)
         = map (apply_patch data) (filter (\<lambda>r. tc_id r = i) xs)" for xs
    by (induction xs) (auto simp: idp)
  show ?thesis using assms
    by (auto simp: SupabaseStorage_updateTestCase_def update_test_cases_single_def
          update_test_cases_def delete_test_steps_def insert_test_steps_def
          SupabaseStorage_getTestCase_def f
        split: prod.splits sum.splits option.splits if_splits)
qed

lemma revertToVersion_no_snapshots:
  "SupabaseStorage_getTestVersions db False i = [] \<Longrightarrow>
   SupabaseStorage_revertToVersion db errs i v = (False, db)"
  by (simp add: SupabaseStorage_revertToVersion_def SupabaseStorage_getTestVersions_def Let_def)

lemma revertToVersion_versions:
  "test_versions (snd (SupabaseStorage_revertToVersion db errs i v)) = test_versions db"
  by (simp add: SupabaseStorage_revertToVersion_def update_test_cases_def Let_def
        split: prod.splits option.splits)

text \<open>
  C4 (as the code has it). \<open>updateTestCase\<close> records no snapshot and \<open>revertToVersion\<close>
  has no snapshot-then-apply path: it never writes test_versions. So for a test case that
  was created (in a store with no snapshot rows for its id) and then updated twice with
  success, \<open>revertToVersion(tc, 2)\<close> finds no snapshot, returns \<open>false\<close> and changes
  nothing, whatever the store answers: the test case read back is the row the second
  update returned, at version 1, and it has no snapshot.
\<close>

theorem revertToVersion_after_two_updates:
  assumes c: "SupabaseStorage_createTestCase db0 errs0 now tcs = (Inr t0, db1)"
    and u1: "SupabaseStorage_updateTestCase db1 errs1 (tc_id t0) data1 steps1 = (Some t1, db2)"
    and u2: "SupabaseStorage_updateTestCase db2 errs2 (tc_id t0) data2 steps2 = (Some t2, db3)"
    and n: "SupabaseStorage_getTestVersions db0 False (tc_id t0) = []"
  shows "SupabaseStorage_revertToVersion db3 errs (tc_id t0) 2 = (False, db3) \<and>
         SupabaseStorage_getTestCase db3 False (tc_id t0) = Some t2 \<and>
         tc_version t2 = 1 \<and>
         SupabaseStorage_getTestVersions db3 False (tc_id t0) = [] \<and>
         test_versions (snd (SupabaseStorage_revertToVersion db errs i v)) = test_versions db"
proof -
  have v1: "test_versions db1 = test_versions db0"
    using createTestCase_row [OF c] by simp
  have v2: "test_versions db2 = test_versions db1"
    using updateTestCase_versions [of db1 errs1 "tc_id t0" data1 steps1] u1 by simp
  have v3: "test_versions db3 = test_versions db2"
    using updateTestCase_versions [of db2 errs2 "tc_id t0" data2 steps2] u2 by simp
  have none: "SupabaseStorage_getTestVersions db3 False (tc_id t0) = []"
    using n by (simp add: SupabaseStorage_getTestVersions_def v1 v2 v3)
  have rb: "SupabaseStorage_getTestCase db3 False (tc_id t0) = Some t2"
    by (rule updateTestCase_read_back [OF u2])
  have r1: "SupabaseStorage_getTestCase db2 False (tc_id t0) = Some t1"
    by (rule updateTestCase_read_back [OF u1])
  have k2: "map version_key (test_cases db2) = map version_key (test_cases db1)"
    using updateTestCase_key [of db1 errs1 "tc_id t0" data1 steps1] u1 by simp
  have "map_option tc_version (SupabaseStorage_getTestCase db1 False (tc_id t0)) = Some (tc_version t1)"
    by (rule updated_row_version [OF u1])
  then obtain r where r: "SupabaseStorage_getTestCase db1 False (tc_id t0) = Some r"
    and rv: "tc_version r = tc_version t1" by auto
  have "tc_version r = 1" by (rule created_version_read [OF c r])
  then have t1v: "tc_version t1 = 1" using rv by simp
  have "map_option tc_version (SupabaseStorage_getTestCase db2 False (tc_id t0)) = Some (tc_version t2)"
    by (rule updated_row_version [OF u2])
  then have "tc_version t2 = 1" using r1 t1v by simp
  then show ?thesis
    using revertToVersion_no_snapshots [OF none, of errs 2] rb none
      revertToVersion_versions [of db errs i v] by simp
qed

text \<open>The witness: the scenario test case, created in the empty store and retitled twice.\<close>

theorem revertToVersion_after_two_updates_witness:
  "SupabaseStorage_revertToVersion db_updated_twice (False, False) 1 2 = (False, db_updated_twice) \<and>
   map_option tc_title (SupabaseStorage_getTestCase db_updated_twice False 1) = Some ''Login v3'' \<and>
   map_option tc_version (SupabaseStorage_getTestCase db_updated_twice False 1) = Some 1 \<and>
   SupabaseStorage_getTestVersions db_updated_twice False 1 = []"
proof -
  let ?db2 = "snd (SupabaseStorage_updateTestCase db_login no_errors 1 (retitle ''Login v2'') None)"
  have c: "SupabaseStorage_createTestCase empty_db (False, False) 1000 login = (Inr login_row, db_login)"
    by code_simp
  have i: "tc_id login_row = 1" by code_simp
  have u1: "SupabaseStorage_updateTestCase db_login no_errors (tc_id login_row) (retitle ''Login v2'') None
              = (Some (login_row\<lparr> tc_title := ''Login v2'' \<rparr>), ?db2)"
    by code_simp
  have u2: "SupabaseStorage_updateTestCase ?db2 no_errors (tc_id login_row) (retitle ''Login v3'') None
              = (Some (login_row\<lparr> tc_title := ''Login v3'' \<rparr>), db_updated_twice)"
    by code_simp
  have n: "SupabaseStorage_getTestVersions empty_db False (tc_id login_row) = []"
    by code_simp
  show ?thesis
    using revertToVersion_after_two_updates [OF c u1 u2 n, of "(False, False)"] i by simp
qed

text \<open>
  C4 as stated fails: the scenario test case is created and updated twice with success;
  \<open>revertToVersion(1, 2)\<close> then returns \<open>false\<close>, the version read back is 1 and not
  4, and the title is still that of the second update.
\<close>

theorem revert_after_two_updates_counterexample:
  "fst (update_all db_login 1
          [(no_errors, retitle ''Login v2'', None), (no_errors, retitle ''Login v3'', None)])
     = [Some (login_row\<lparr> tc_title := ''Login v2'' \<rparr>), Some (login_row\<lparr> tc_title := ''Login v3'' \<rparr>)] \<and>
   fst (SupabaseStorage_revertToVersion db_updated_twice (False, False) 1 2) = False \<and>
   map_option tc_version (SupabaseStorage_getTestCase
       (snd (SupabaseStorage_revertToVersion db_updated_twice (False, False) 1 2)) False 1) = Some 1 \<and>
   map_option tc_version (SupabaseStorage_getTestCase
       (snd (SupabaseStorage_revertToVersion db_updated_twice (False, False) 1 2)) False 1) \<noteq> Some 4 \<and>
   map_option tc_title (SupabaseStorage_getTestCase
       (snd (SupabaseStorage_revertToVersion db_updated_twice (False, False) 1 2)) False 1) = Some ''Login v3''"
  by code_simp

subsection \<open>Claim C3: the snapshot that revertToVersion selects\<close>

text \<open>
  C3 says that \<open>revertToVersion(id, version)\<close> selects the snapshot whose version number
  equals \<open>version\<close>, applies its stored data to the test case, and fails when there is no
  such snapshot. The code at the input \<open>revertToVersion(1, 2)\<close>, on a store whose test
  case 1 ("Login v3") has the snapshots numbered 2 ("Login v1") and 3 ("Login v2"):
  it selects by position, \<open>versions[2 - 1]\<close>, which is the snapshot numbered 3; the body
  of its update is that row of test_versions and not the row's \<open>data\<close>. When the store
  refuses the body the call returns \<open>false\<close> and nothing changes; when the store accepts
  it the call returns \<open>true\<close>, the title is still "Login v3", and the row has taken the
  id, the version, created_by and created_at of the snapshot row. And
  \<open>revertToVersion(1, 1)\<close>, for which no snapshot numbered 1 exists, selects the snapshot
  numbered 2 and returns \<open>true\<close> when the store accepts the body.
\<close>

theorem revertToVersion_selects_by_position:
  "map tc_title (test_cases db_history) = [''Login v3''] \<and>
   map (\<lambda>v. (tv_id v, tv_version v, tc_title (tv_data v))) (SupabaseStorage_getTestVersions db_history False 1)
     = [(1, 2, ''Login v1''), (2, 3, ''Login v2'')] \<and>
   map_option tv_version (js_index (SupabaseStorage_getTestVersions db_history False 1) (2 - 1)) = Some 3 \<and>
   SupabaseStorage_revertToVersion db_history (False, True) 1 2 = (False, db_history) \<and>
   fst (SupabaseStorage_revertToVersion db_history (False, False) 1 2) = True \<and>
   map (\<lambda>r. (tc_id r, tc_title r, tc_version r))
       (test_cases (snd (SupabaseStorage_revertToVersion db_history (False, False) 1 2)))
     = [(2, ''Login v3'', 3)] \<and>
   filter (\<lambda>v. tv_version v = 1) (SupabaseStorage_getTestVersions db_history False 1) = [] \<and>
   fst (SupabaseStorage_revertToVersion db_history (False, False) 1 1) = True \<and>
   map (\<lambda>r. (tc_id r, tc_title r, tc_version r))
       (test_cases (snd (SupabaseStorage_revertToVersion db_history (False, False) 1 1)))
     = [(1, ''Login v3'', 2)]"
  by code_simp

subsection \<open>Claim C5: status and last_run after a run result\<close>

lemma createTestRunResult_keeps_last_run:
  "map tc_last_run (test_cases (snd (SupabaseStorage_createTestRunResult db errs now result)))
     = map tc_last_run (test_cases db)"
  by (simp add: SupabaseStorage_createTestRunResult_def SupabaseStorage_updateTestCaseStatus_def
        update_test_cases_def Let_def comp_def)

text \<open>
  C5 says that after \<open>createTestRunResult\<close> the test case has the status of the result
  and a \<open>last_run\<close> equal to the result's execution time, on both adapters. The
  persistent adapter at the input "result failed for test case 1, executed at 2000", on
  the scenario store with no error of the store: the result is inserted with
  \<open>executed_at\<close> 2000 and the status of the test case becomes "failed", but its
  \<open>last_run\<close> is still null. The in-memory adapter sets \<open>last_run\<close> at the same kind of
  input. For every input, the persistent adapter leaves the \<open>last_run\<close> of every test
  case as it was.
\<close>

theorem createTestRunResult_leaves_last_run:
  "fst (SupabaseStorage_createTestRunResult db_login (False, False) 2000 (failed_result 1))
     = Inr \<lparr> trr_id = 1, trr_runId = 1, trr_test_case_id = 1, trr_status = ''failed'',
             trr_notes = None, trr_executed_by = 1, trr_executed_at = 2000 \<rparr> \<and>
   map_option tc_status (SupabaseStorage_getTestCase
       (snd (SupabaseStorage_createTestRunResult db_login (False, False) 2000 (failed_result 1))) False 1)
     = Some ''failed'' \<and>
   map_option tc_last_run (SupabaseStorage_getTestCase
       (snd (SupabaseStorage_createTestRunResult db_login (False, False) 2000 (failed_result 1))) False 1)
     = Some None \<and>
   map_option tc_last_run (map_get (ms_testCases
       (snd (MemStorage_createTestRunResult (MemStorage_constructor seed_clock) (2000, 2000)
               (failed_result 1)))) 1)
     = Some (Some 2000) \<and>
   map tc_last_run (test_cases (snd (SupabaseStorage_createTestRunResult db errs now result)))
     = map tc_last_run (test_cases db)"
proof -
  have a: "fst (SupabaseStorage_createTestRunResult db_login (False, False) 2000 (failed_result 1))
     = Inr \<lparr> trr_id = 1, trr_runId = 1, trr_test_case_id = 1, trr_status = ''failed'',
             trr_notes = None, trr_executed_by = 1, trr_executed_at = 2000 \<rparr>"
    by code_simp
  have b: "map_option tc_status (SupabaseStorage_getTestCase
       (snd (SupabaseStorage_createTestRunResult db_login (False, False) 2000 (failed_result 1))) False 1)
     = Some ''failed''"
    by code_simp
  have c: "map_option tc_last_run (SupabaseStorage_getTestCase
       (snd (SupabaseStorage_createTestRunResult db_login (False, False) 2000 (failed_result 1))) False 1)
     = Some None"
    by code_simp
  have d: "map_option tc_last_run (map_get (ms_testCases
       (snd (MemStorage_createTestRunResult (MemStorage_constructor seed_clock) (2000, 2000)
               (failed_result 1)))) 1)
     = Some (Some 2000)"
    by code_simp
  show ?thesis using a b c d createTestRunResult_keeps_last_run [of db errs now result] by simp
qed

subsection \<open>Claim C6: what deleteTestCase removes\<close>

lemma deleteTestCase_folders:
  "test_case_folders (snd (SupabaseStorage_deleteTestCase db errs i)) = test_case_folders db"
  by (simp add: SupabaseStorage_deleteTestCase_def delete_test_steps_def delete_test_case_row_def
        split: prod.splits option.splits)

text \<open>
  C6 says that \<open>deleteTestCase(id)\<close> removes the steps, the folder associations and the
  row of the test case. The code at the input \<open>deleteTestCase(1)\<close>, on a store whose test
  case 1 has three steps and two folder associations, with no error of the store: it
  returns \<open>true\<close>, the test case is not found afterwards and it has no steps, but the two
  rows of test_case_folders that reference it are still there. For every input and every
  answer of the store, \<open>deleteTestCase\<close> leaves test_case_folders as it was.
\<close>

theorem deleteTestCase_leaves_folder_associations:
  "length (SupabaseStorage_getTestSteps db_cascade False 1) = 3 \<and>
   fst (SupabaseStorage_deleteTestCase db_cascade (False, False) 1) = True \<and>
   SupabaseStorage_getTestCase (snd (SupabaseStorage_deleteTestCase db_cascade (False, False) 1)) False 1
     = None \<and>
   SupabaseStorage_getTestSteps (snd (SupabaseStorage_deleteTestCase db_cascade (False, False) 1)) False 1
     = [] \<and>
   filter (\<lambda>a. tcf_test_case_id a = 1)
       (test_case_folders (snd (SupabaseStorage_deleteTestCase db_cascade (False, False) 1)))
     = [\<lparr> tcf_id = 1, tcf_test_case_id = 1, tcf_folderId = 1 \<rparr>,
        \<lparr> tcf_id = 2, tcf_test_case_id = 1, tcf_folderId = 2 \<rparr>] \<and>
   test_case_folders (snd (SupabaseStorage_deleteTestCase db errs i)) = test_case_folders db"
proof -
  have a: "length (SupabaseStorage_getTestSteps db_cascade False 1) = 3" by code_simp
  have b: "fst (SupabaseStorage_deleteTestCase db_cascade (False, False) 1) = True" by code_simp
  have c: "SupabaseStorage_getTestCase (snd (SupabaseStorage_deleteTestCase db_cascade (False, False) 1)) False 1
     = None" by code_simp
  have d: "SupabaseStorage_getTestSteps (snd (SupabaseStorage_deleteTestCase db_cascade (False, False) 1)) False 1
     = []" by code_simp
  have e: "filter (\<lambda>a. tcf_test_case_id a = 1)
       (test_case_folders (snd (SupabaseStorage_deleteTestCase db_cascade (False, False) 1)))
     = [\<lparr> tcf_id = 1, tcf_test_case_id = 1, tcf_folderId = 1 \<rparr>,
        \<lparr> tcf_id = 2, tcf_test_case_id = 1, tcf_folderId = 2 \<rparr>]" by code_simp
  show ?thesis using a b c d e deleteTestCase_folders [of db errs i] by simp
qed

section \<open>Properties of the in-memory adapter\<close>

subsection \<open>Claim C7: assigning twice, removing an unassigned pair\<close>

lemma map_of_map_set: "map_of (map_set m k v) k' = (if k' = k then Some v else map_of m k')"
  by (induction m k v rule: map_set.induct) auto

lemma map_set_same: "map_of m k = Some v \<Longrightarrow> map_set m k v = m"
  by (induction m k v rule: map_set.induct) (auto split: if_splits)

lemma map_set_twice: "map_set (map_set m k v) k v' = map_set m k v'"
  by (induction m k v rule: map_set.induct) auto

lemma count_list_distinct: "distinct s \<Longrightarrow> x \<in> set s \<Longrightarrow> count_list s x = 1"
  by (induction s) auto

lemma distinct_lookup: "list_all (\<lambda>(f, s). distinct s) m \<Longrightarrow> map_of m k = Some s \<Longrightarrow> distinct s"
  by (induction m) (auto split: if_splits)

lemma assign_eq:
  "MemStorage_assignTestCaseToFolder ms tc f =
     (\<lparr> tcf_id = ms_testCaseFolderId ms, tcf_test_case_id = tc, tcf_folderId = f \<rparr>,
      ms\<lparr> ms_testCaseFolders := map_set (ms_testCaseFolders ms) f (set_add (folder_set ms f) tc),
          ms_testCaseFolderId := ms_testCaseFolderId ms + 1 \<rparr>)"
proof (cases "map_of (ms_testCaseFolders ms) f")
  case None
  then show ?thesis
    by (simp add: MemStorage_assignTestCaseToFolder_def folder_set_def map_has_def map_get_def
        set_has_def set_add_def map_of_map_set map_set_twice Let_def)
next
  case (Some s)
  show ?thesis
  proof (cases "tc \<in> set s")
    case True
    then show ?thesis using Some
      by (simp add: MemStorage_assignTestCaseToFolder_def folder_set_def map_has_def map_get_def
        set_has_def set_add_def map_set_same Let_def)
  next
    case False
    then show ?thesis using Some
      by (simp add: MemStorage_assignTestCaseToFolder_def folder_set_def map_has_def map_get_def
        set_has_def set_add_def Let_def)
  qed
qed

lemma assign_folder_set:
  "folder_set (snd (MemStorage_assignTestCaseToFolder ms tc f)) f = set_add (folder_set ms f) tc"
  by (simp add: assign_eq folder_set_def [of "ms\<lparr> ms_testCaseFolders := m, ms_testCaseFolderId := n \<rparr>" for m n]
        map_get_def map_of_map_set)

lemma remove_unassigned:
  assumes a: "tc \<notin> set (folder_set ms f)"
  shows "MemStorage_removeTestCaseFromFolder ms tc f = (False, ms)"
proof (cases "map_of (ms_testCaseFolders ms) f")
  case None
  then show ?thesis by (simp add: MemStorage_removeTestCaseFromFolder_def map_get_def)
next
  case (Some s)
  have n: "tc \<notin> set s" using a Some by (simp add: folder_set_def map_get_def)
  have "filter (\<lambda>y. y \<noteq> tc) s = s" using n by (induction s) auto
  then show ?thesis using Some n
    by (simp add: MemStorage_removeTestCaseFromFolder_def map_get_def set_delete_def map_set_same)
qed

text \<open>
  C7 (as the code has it), on the in-memory adapter. For every test case and folder,
  calling \<open>assignTestCaseToFolder(tc, f)\<close> twice leaves exactly one association of the
  pair (in a state whose folder sets have no duplicates, as every \<open>Set\<close> has), and the
  second call changes no folder set. Neither call fails. The second call returns a record
  of the same pair under a newly allocated id, the id of the first record plus one.
  \<open>removeTestCaseFromFolder\<close> on a pair that is not assigned returns \<open>false\<close> and
  changes nothing.
\<close>

theorem assignTestCaseToFolder_twice:
  "(folder_sets_distinct ms \<longrightarrow>
      association_count (snd (MemStorage_assignTestCaseToFolder
          (snd (MemStorage_assignTestCaseToFolder ms tc f)) tc f)) tc f = 1) \<and>
   ms_testCaseFolders (snd (MemStorage_assignTestCaseToFolder
          (snd (MemStorage_assignTestCaseToFolder ms tc f)) tc f))
     = ms_testCaseFolders (snd (MemStorage_assignTestCaseToFolder ms tc f)) \<and>
   fst (MemStorage_assignTestCaseToFolder (snd (MemStorage_assignTestCaseToFolder ms tc f)) tc f)
     = \<lparr> tcf_id = tcf_id (fst (MemStorage_assignTestCaseToFolder ms tc f)) + 1,
         tcf_test_case_id = tc, tcf_folderId = f \<rparr> \<and>
   tcf_test_case_id (fst (MemStorage_assignTestCaseToFolder ms tc f)) = tc \<and>
   tcf_folderId (fst (MemStorage_assignTestCaseToFolder ms tc f)) = f \<and>
   (association_count ms tc f = 0 \<longrightarrow> MemStorage_removeTestCaseFromFolder ms tc f = (False, ms))"
proof -
  let ?ms1 = "snd (MemStorage_assignTestCaseToFolder ms tc f)"
  let ?ms2 = "snd (MemStorage_assignTestCaseToFolder ?ms1 tc f)"
  have in1: "tc \<in> set (folder_set ?ms1 f)"
    by (simp add: assign_folder_set set_add_def)
  have fs2: "folder_set ?ms2 f = folder_set ?ms1 f"
    using in1 by (simp add: assign_folder_set [of ?ms1] set_add_def)
  have one: "association_count ?ms2 tc f = 1" if d: "folder_sets_distinct ms"
  proof -
    have "distinct (folder_set ms f)"
    proof (cases "map_of (ms_testCaseFolders ms) f")
      case None
      then show ?thesis by (simp add: folder_set_def map_get_def)
    next
      case (Some s)
      then show ?thesis using d distinct_lookup [of "ms_testCaseFolders ms" f s]
        by (simp add: folder_sets_distinct_def folder_set_def map_get_def)
    qed
    then have "distinct (folder_set ?ms1 f)"
      by (simp add: assign_folder_set set_add_def)
    then have "count_list (folder_set ?ms1 f) tc = 1"
      using in1 by (rule count_list_distinct)
    then show ?thesis
      by (simp add: association_count_def fs2)
  qed
  have same: "ms_testCaseFolders ?ms2 = ms_testCaseFolders ?ms1"
  proof -
    have "map_of (ms_testCaseFolders ?ms1) f = Some (folder_set ?ms1 f)"
      by (simp add: assign_eq [of ms] folder_set_def map_get_def map_of_map_set)
    then have "map_set (ms_testCaseFolders ?ms1) f (folder_set ?ms1 f) = ms_testCaseFolders ?ms1"
      by (rule map_set_same)
    then show ?thesis using in1
      by (simp add: assign_eq [of ?ms1] set_add_def)
  qed
  have ids: "fst (MemStorage_assignTestCaseToFolder ?ms1 tc f)
     = \<lparr> tcf_id = tcf_id (fst (MemStorage_assignTestCaseToFolder ms tc f)) + 1,
         tcf_test_case_id = tc, tcf_folderId = f \<rparr>"
    by (simp add: assign_eq)
  have flds: "tcf_test_case_id (fst (MemStorage_assignTestCaseToFolder ms tc f)) = tc \<and>
     tcf_folderId (fst (MemStorage_assignTestCaseToFolder ms tc f)) = f"
    by (simp add: assign_eq [of ms])
  have rem: "MemStorage_removeTestCaseFromFolder ms tc f = (False, ms)"
    if z: "association_count ms tc f = 0"
    using z remove_unassigned [of tc ms f] by (simp add: association_count_def count_list_0_iff)
  show ?thesis
    using one same ids flds rem by blast
qed

text \<open>The witness: test case 3 and folder 1 of a fresh instance, which are not assigned.\<close>

theorem assignTestCaseToFolder_twice_witness:
  "folder_sets_distinct (MemStorage_constructor seed_clock) \<and>
   association_count (MemStorage_constructor seed_clock) 3 1 = 0 \<and>
   association_count (snd (MemStorage_assignTestCaseToFolder
       (snd (MemStorage_assignTestCaseToFolder (MemStorage_constructor seed_clock) 3 1)) 3 1)) 3 1 = 1 \<and>
   MemStorage_removeTestCaseFromFolder (MemStorage_constructor seed_clock) 3 1
     = (False, MemStorage_constructor seed_clock)"
proof -
  have d: "folder_sets_distinct (MemStorage_constructor seed_clock)" by code_simp
  have z: "association_count (MemStorage_constructor seed_clock) 3 1 = 0" by code_simp
  show ?thesis
    using assignTestCaseToFolder_twice [of "MemStorage_constructor seed_clock" 3 1] d z by simp
qed

text \<open>
  C7 as stated fails: on a fresh instance the first \<open>assignTestCaseToFolder(3, 1)\<close> returns
  the association with id 4, and the second call does not return that association but a
  record with id 5.
\<close>

theorem assignTestCaseToFolder_second_result_counterexample:
  "fst (MemStorage_assignTestCaseToFolder (MemStorage_constructor seed_clock) 3 1)
     = \<lparr> tcf_id = 4, tcf_test_case_id = 3, tcf_folderId = 1 \<rparr> \<and>
   fst (MemStorage_assignTestCaseToFolder
          (snd (MemStorage_assignTestCaseToFolder (MemStorage_constructor seed_clock) 3 1)) 3 1)
     = \<lparr> tcf_id = 5, tcf_test_case_id = 3, tcf_folderId = 1 \<rparr> \<and>
   fst (MemStorage_assignTestCaseToFolder
          (snd (MemStorage_assignTestCaseToFolder (MemStorage_constructor seed_clock) 3 1)) 3 1)
     \<noteq> fst (MemStorage_assignTestCaseToFolder (MemStorage_constructor seed_clock) 3 1)"
  by code_simp

subsection \<open>Claim C10: the seed data of a fresh instance\<close>

lemma seed_users: "ms_users (MemStorage_constructor clock) =
   [(1, \<lparr> u_id = 1, u_username = ''admin'', u_email = ''admin@example.com'',
           u_password = ''password'', u_full_name = ''System Admin'', u_avatar = None,
           u_role = ''system_owner'', u_last_login = None, u_is_active = True \<rparr>)]"
  by code_simp

lemma seed_folders: "ms_folders (MemStorage_constructor clock) =
   [(1, \<lparr> f_id = 1, f_name = ''Regression Tests'',
           f_description = Some ''Tests for regression testing'', f_created_by = Some 1,
           f_created_at = clock 0 \<rparr>),
    (2, \<lparr> f_id = 2, f_name = ''Smoke Tests'', f_description = Some ''Quick smoke tests'',
           f_created_by = Some 1, f_created_at = clock 1 \<rparr>),
    (3, \<lparr> f_id = 3, f_name = ''Feature Tests'', f_description = Some ''Feature specific tests'',
           f_created_by = Some 1, f_created_at = clock 2 \<rparr>)]"
  by code_simp

lemma seed_testCases:
  "map (\<lambda>(k, t). (k, tc_id t, tc_title t, tc_status t, tc_version t)) (ms_testCases (MemStorage_constructor clock)) =
     [(1, 1, ''User Login Verification'', ''passed'', 1),
      (2, 2, ''Password Reset Flow'', ''failed'', 1),
      (3, 3, ''User Registration Form Validation'', ''pending'', 1)]"
  by code_simp

lemma seed_testSteps:
  "map (\<lambda>(k, ss). (k, map ts_step_number ss)) (ms_testSteps (MemStorage_constructor clock)) =
     [(1, [1, 2, 3]), (2, [1, 2, 3, 4, 5]), (3, [1, 2, 3, 4, 5])]"
  by code_simp

lemma seed_testCaseFolders:
  "ms_testCaseFolders (MemStorage_constructor clock) = [(1, [1, 2]), (2, [3])]"
  by code_simp

lemma seed_counters:
  "(ms_userId (MemStorage_constructor clock), ms_folderId (MemStorage_constructor clock),
    ms_test_case_id (MemStorage_constructor clock), ms_testStepId (MemStorage_constructor clock),
    ms_testCaseFolderId (MemStorage_constructor clock)) = (2, 4, 4, 14, 4)"
  by code_simp

lemma seed_other_counters:
  "(ms_testVersionId (MemStorage_constructor clock), ms_testRunId (MemStorage_constructor clock),
    ms_test_run_result_id (MemStorage_constructor clock), ms_bugId (MemStorage_constructor clock),
    ms_whiteboardId (MemStorage_constructor clock), ms_aitest_case_id (MemStorage_constructor clock),
    ms_activityLogId (MemStorage_constructor clock)) = (1, 1, 1, 1, 1, 1, 1)"
  by code_simp

lemma seed_empty:
  "ms_testRuns (MemStorage_constructor clock) = [] \<and>
   ms_testRunResults (MemStorage_constructor clock) = [] \<and>
   ms_bugs (MemStorage_constructor clock) = [] \<and>
   ms_whiteboards (MemStorage_constructor clock) = [] \<and>
   ms_aiTestCases (MemStorage_constructor clock) = [] \<and>
   ms_activityLogs (MemStorage_constructor clock) = [] \<and>
   ms_testVersions (MemStorage_constructor clock) = []"
  by code_simp

lemma seed_status_counts:
  "MemStorage_getTestStatusCounts (MemStorage_constructor clock) =
     [(''passed'', Count 1), (''failed'', Count 1), (''pending'', Count 1)]"
  by code_simp

lemma seed_count_by_folder:
  "MemStorage_getTestCountByFolder (MemStorage_constructor clock) = [(1, 2), (2, 1)]"
  by code_simp

lemma seed_case_folders:
  "map f_id (MemStorage_getTestCaseFolders (MemStorage_constructor clock) 1) = [1] \<and>
   map f_id (MemStorage_getTestCaseFolders (MemStorage_constructor clock) 2) = [1] \<and>
   map f_id (MemStorage_getTestCaseFolders (MemStorage_constructor clock) 3) = [2]"
  by code_simp

lemma sort_desc_set: "set (sort_desc t xs) = set xs"
  by (simp add: sort_desc_def)

lemma sort_desc_length: "length (sort_desc t xs) = length xs"
  by (simp add: sort_desc_def)

lemma seed_recent:
  "set (map tc_id (MemStorage_getRecentTestCases (MemStorage_constructor clock) 5)) = {1, 2, 3} \<and>
   length (MemStorage_getRecentTestCases (MemStorage_constructor clock) 5) = 3"
proof -
  have k: "map fst (ms_testCases (MemStorage_constructor clock)) = [1, 2, 3] \<and>
           map (tc_id \<circ> snd) (ms_testCases (MemStorage_constructor clock)) = [1, 2, 3]"
    using seed_testCases [of clock, THEN arg_cong, of "map (\<lambda>p. fst p)"]
          seed_testCases [of clock, THEN arg_cong, of "map (\<lambda>p. fst (snd p))"]
    by (simp add: comp_def case_prod_beta)
  have l: "length (sort_desc tc_updated_at (map_values (ms_testCases (MemStorage_constructor clock)))) = 3"
    using k [THEN conjunct1, THEN arg_cong, of length] by (simp add: sort_desc_length map_values_def)
  have s: "set (map tc_id (sort_desc tc_updated_at (map_values (ms_testCases (MemStorage_constructor clock))))) = {1, 2, 3}"
    using k [THEN conjunct2, THEN arg_cong, of set] by (simp add: sort_desc_set map_values_def image_image) 
  show ?thesis using l s by (simp add: MemStorage_getRecentTestCases_def)
qed

lemma seed_empty_lists:
  "MemStorage_getTestRuns (MemStorage_constructor clock) = [] \<and>
   MemStorage_getTestRunResults (MemStorage_constructor clock) runId = [] \<and>
   MemStorage_getBugs (MemStorage_constructor clock) filters = [] \<and>
   MemStorage_getWhiteboards (MemStorage_constructor clock) = [] \<and>
   MemStorage_getAITestCases (MemStorage_constructor clock) userId = [] \<and>
   MemStorage_getRecentActivities (MemStorage_constructor clock) limit = []"
  using seed_empty [of clock]
  by (simp add: MemStorage_getTestRuns_def MemStorage_getTestRunResults_def MemStorage_getBugs_def
        MemStorage_getWhiteboards_def MemStorage_getAITestCases_def MemStorage_getRecentActivities_def
        sort_desc_def map_values_def map_get_def split: option.splits prod.splits)

text \<open>
  C10 (as the code has it). A freshly constructed MemStorage, whatever the clock shows,
  holds one admin user (id 1), three folders (ids 1 to 3), three test cases (ids 1 to 3,
  version 1) with 3, 5 and 5 steps numbered from 1, and the folder assignments (1, 1),
  (2, 1) and (3, 2); the counters of users, folders, test cases, steps and folder
  associations stand at 2, 4, 4, 14 and 4. The list and count operations over users,
  folders, test cases and folder membership return this seed data. The lists of test
  runs, run results, bugs, whiteboards, AI test cases and activities are empty.
\<close>

theorem MemStorage_constructor_seed:
  "MemStorage_getUsers (MemStorage_constructor clock) =
     [\<lparr> u_id = 1, u_username = ''admin'', u_email = ''admin@example.com'',
        u_password = ''password'', u_full_name = ''System Admin'', u_avatar = None,
        u_role = ''system_owner'', u_last_login = None, u_is_active = True \<rparr>] \<and>
   MemStorage_getFolders (MemStorage_constructor clock) =
     [\<lparr> f_id = 1, f_name = ''Regression Tests'',
        f_description = Some ''Tests for regression testing'', f_created_by = Some 1,
        f_created_at = clock 0 \<rparr>,
      \<lparr> f_id = 2, f_name = ''Smoke Tests'', f_description = Some ''Quick smoke tests'',
        f_created_by = Some 1, f_created_at = clock 1 \<rparr>,
      \<lparr> f_id = 3, f_name = ''Feature Tests'', f_description = Some ''Feature specific tests'',
        f_created_by = Some 1, f_created_at = clock 2 \<rparr>] \<and>
   map (\<lambda>(k, t). (k, tc_id t, tc_title t, tc_status t, tc_version t))
       (ms_testCases (MemStorage_constructor clock)) =
     [(1, 1, ''User Login Verification'', ''passed'', 1),
      (2, 2, ''Password Reset Flow'', ''failed'', 1),
      (3, 3, ''User Registration Form Validation'', ''pending'', 1)] \<and>
   map (\<lambda>(k, ss). (k, map ts_step_number ss)) (ms_testSteps (MemStorage_constructor clock)) =
     [(1, [1, 2, 3]), (2, [1, 2, 3, 4, 5]), (3, [1, 2, 3, 4, 5])] \<and>
   ms_testCaseFolders (MemStorage_constructor clock) = [(1, [1, 2]), (2, [3])] \<and>
   (ms_userId (MemStorage_constructor clock), ms_folderId (MemStorage_constructor clock),
    ms_test_case_id (MemStorage_constructor clock), ms_testStepId (MemStorage_constructor clock),
    ms_testCaseFolderId (MemStorage_constructor clock)) = (2, 4, 4, 14, 4) \<and>
   MemStorage_getTestCountByFolder (MemStorage_constructor clock) = [(1, 2), (2, 1)] \<and>
   MemStorage_getTestStatusCounts (MemStorage_constructor clock) =
     [(''passed'', Count 1), (''failed'', Count 1), (''pending'', Count 1)] \<and>
   map f_id (MemStorage_getTestCaseFolders (MemStorage_constructor clock) 1) = [1] \<and>
   map f_id (MemStorage_getTestCaseFolders (MemStorage_constructor clock) 2) = [1] \<and>
   map f_id (MemStorage_getTestCaseFolders (MemStorage_constructor clock) 3) = [2] \<and>
   set (map tc_id (MemStorage_getRecentTestCases (MemStorage_constructor clock) 5)) = {1, 2, 3} \<and>
   length (MemStorage_getRecentTestCases (MemStorage_constructor clock) 5) = 3 \<and>
   MemStorage_getTestRuns (MemStorage_constructor clock) = [] \<and>
   MemStorage_getTestRunResults (MemStorage_constructor clock) runId = [] \<and>
   MemStorage_getBugs (MemStorage_constructor clock) filters = [] \<and>
   MemStorage_getWhiteboards (MemStorage_constructor clock) = [] \<and>
   MemStorage_getAITestCases (MemStorage_constructor clock) userId = [] \<and>
   MemStorage_getRecentActivities (MemStorage_constructor clock) limit = []"
proof -
  have u: "MemStorage_getUsers (MemStorage_constructor clock) =
     [\<lparr> u_id = 1, u_username = ''admin'', u_email = ''admin@example.com'',
        u_password = ''password'', u_full_name = ''System Admin'', u_avatar = None,
        u_role = ''system_owner'', u_last_login = None, u_is_active = True \<rparr>]"
    by (simp add: MemStorage_getUsers_def map_values_def seed_users)
  have f: "MemStorage_getFolders (MemStorage_constructor clock) =
     [\<lparr> f_id = 1, f_name = ''Regression Tests'',
        f_description = Some ''Tests for regression testing'', f_created_by = Some 1,
        f_created_at = clock 0 \<rparr>,
      \<lparr> f_id = 2, f_name = ''Smoke Tests'', f_description = Some ''Quick smoke tests'',
        f_created_by = Some 1, f_created_at = clock 1 \<rparr>,
      \<lparr> f_id = 3, f_name = ''Feature Tests'', f_description = Some ''Feature specific tests'',
        f_created_by = Some 1, f_created_at = clock 2 \<rparr>]"
    by (simp add: MemStorage_getFolders_def map_values_def seed_folders)
  show ?thesis
    by (intro conjI u f seed_testCases seed_testSteps seed_testCaseFolders seed_counters
          seed_count_by_folder seed_status_counts
          seed_case_folders [THEN conjunct1] seed_case_folders [THEN conjunct2, THEN conjunct1]
          seed_case_folders [THEN conjunct2, THEN conjunct2]
          seed_recent [THEN conjunct1] seed_recent [THEN conjunct2]
          seed_empty_lists [THEN conjunct1]
          seed_empty_lists [THEN conjunct2, THEN conjunct1]
          seed_empty_lists [THEN conjunct2, THEN conjunct2, THEN conjunct1]
          seed_empty_lists [THEN conjunct2, THEN conjunct2, THEN conjunct2, THEN conjunct1]
          seed_empty_lists [THEN conjunct2, THEN conjunct2, THEN conjunct2, THEN conjunct2, THEN conjunct1]
          seed_empty_lists [THEN conjunct2, THEN conjunct2, THEN conjunct2, THEN conjunct2, THEN conjunct2])
qed

text \<open>
  C10 as stated fails: not every list operation of a fresh instance returns seed data;
  the lists of test runs, of bugs and of recent activities are empty.
\<close>

theorem fresh_instance_empty_lists_counterexample:
  "MemStorage_getTestRuns (MemStorage_constructor seed_clock) = [] \<and>
   MemStorage_getBugs (MemStorage_constructor seed_clock) None = [] \<and>
   MemStorage_getRecentActivities (MemStorage_constructor seed_clock) 10 = []"
  by code_simp

section \<open>The two adapters side by side\<close>

subsection \<open>Claim C2: the same observable behaviour\<close>

text \<open>
  C2 says that both adapters behave the same for every operation and input. The code at
  the input \<open>removeTestCaseFromFolder(3, 1)\<close>, where test case 3 is not in folder 1: the
  in-memory adapter (a fresh instance, where test case 3 is in folder 2 only) returns
  \<open>false\<close>; the persistent adapter (a store with no association of the pair, and no error
  of the store) returns \<open>true\<close>. The persistent adapter returns \<open>true\<close> for every pair
  whenever the store reports no error.
\<close>

theorem removeTestCaseFromFolder_adapters_differ:
  "MemStorage_getTestCaseFolders (MemStorage_constructor seed_clock) 3
     = [\<lparr> f_id = 2, f_name = ''Smoke Tests'', f_description = Some ''Quick smoke tests'',
          f_created_by = Some 1, f_created_at = 1001 \<rparr>] \<and>
   fst (MemStorage_removeTestCaseFromFolder (MemStorage_constructor seed_clock) 3 1) = False \<and>
   filter (\<lambda>a. tcf_test_case_id a = 3 \<and> tcf_folderId a = 1) (test_case_folders db_login) = [] \<and>
   fst (SupabaseStorage_removeTestCaseFromFolder db_login False 3 1) = True \<and>
   fst (SupabaseStorage_removeTestCaseFromFolder db False test_case_id folderId) = True"
proof -
  have a: "MemStorage_getTestCaseFolders (MemStorage_constructor seed_clock) 3
     = [\<lparr> f_id = 2, f_name = ''Smoke Tests'', f_description = Some ''Quick smoke tests'',
          f_created_by = Some 1, f_created_at = 1001 \<rparr>]"
    by code_simp
  have b: "fst (MemStorage_removeTestCaseFromFolder (MemStorage_constructor seed_clock) 3 1) = False"
    by code_simp
  have c: "filter (\<lambda>a. tcf_test_case_id a = 3 \<and> tcf_folderId a = 1) (test_case_folders db_login) = []"
    by code_simp
  have d: "fst (SupabaseStorage_removeTestCaseFromFolder db False test_case_id folderId) = True" for db test_case_id folderId
    by (simp add: SupabaseStorage_removeTestCaseFromFolder_def)
  show ?thesis using a b c d by simp
qed

section \<open>Properties of the route handlers\<close>

subsection \<open>Claim C9: a failure to log an activity\<close>

lemma logActivity_appends:
  "activity_logs (snd (SupabaseStorage_logActivity db False now log))
     = activity_logs db @ [\<lparr> al_id = seq_activity_logs db, al_user_id = ial_user_id log,
                              al_action = ial_action log, al_entity_type = ial_entity_type log,
                              al_entity_id = ial_entity_id log, al_details = ial_details log,
                              al_created_at = now \<rparr>] \<and>
   ms_activityLogs (snd (MemStorage_logActivity ms now log))
     = ms_activityLogs ms @ [fst (MemStorage_logActivity ms now log)] \<and>
   fst (MemStorage_logActivity ms now log)
     = \<lparr> mal_id = ms_activityLogId ms, mal_user_id = ial_user_id log,
         mal_action = ial_action log, mal_entity_type = ial_entity_type log,
         mal_entity_id = ial_entity_id log, mal_details = ial_details log,
         mal_timestamp = now \<rparr>"
  by (simp add: SupabaseStorage_logActivity_def MemStorage_logActivity_def Let_def)

lemma post_api_testcases_unhandled:
  "out_unhandled (fst (post_api_testcases db (createErrs, logErr) nows parsed)) =
     (case parsed of
        None \<Rightarrow> []
      | Some data \<Rightarrow>
          (case fst (SupabaseStorage_createTestCase db createErrs (fst nows) data) of
             Inl e \<Rightarrow> []
           | Inr testCase \<Rightarrow> if logErr then [BackendError] else []))"
  by (simp add: post_api_testcases_def respond_def SupabaseStorage_logActivity_def Let_def
        split: option.splits prod.splits sum.splits)

lemma post_api_ai_generate_tests_handled:
  "out_unhandled (fst (post_api_ai_generate_tests db logErr now parsed key_set generated)) = []"
  by (simp add: post_api_ai_generate_tests_def respond_def SupabaseStorage_logActivity_def Let_def
        split: option.splits prod.splits sum.splits)

text \<open>
  C9 says that a failure to write the activity record is swallowed and never aborts or
  fails the operation that triggered the logging. The code at the input "POST
  /api/testcases with the scenario test case, the store accepting the test case and its
  steps and refusing the insert into activity_logs": \<open>SupabaseStorage.logActivity\<close> throws,
  so its promise is rejected; the handler has sent status 201 with the test case, has
  warned about nothing, and the rejection is unhandled. The sibling handler of POST
  /api/ai/generate-tests awaits the promise with a \<open>.catch\<close>: at the same answer of the
  store it responds and warns, and for every input it leaves no rejection unhandled. For
  every input, the handler of POST /api/testcases leaves the rejection unhandled exactly
  when the creation succeeded and the insert of the log failed.
\<close>

theorem logActivity_rejection_unhandled:
  "SupabaseStorage_logActivity db True now log = (Inl BackendError, db) \<and>
   post_api_testcases empty_db ((False, False), True) (1000, 1001) (Some login)
     = (\<lparr> out_response = Status201 login_row, out_warned = [],
          out_unhandled = [BackendError] \<rparr>, db_login) \<and>
   post_api_ai_generate_tests db_login True 2000 (Some (''login tests'', ''functional'', 3)) True
       (Inr (JArray []))
     = (\<lparr> out_response = Status200 (JArray []), out_warned = [BackendError],
          out_unhandled = [] \<rparr>, db_login) \<and>
   out_unhandled (fst (post_api_ai_generate_tests db logErr now parsed key_set generated)) = [] \<and>
   out_unhandled (fst (post_api_testcases db (createErrs, logErr) nows parsedCase)) =
     (case parsedCase of
        None \<Rightarrow> []
      | Some data \<Rightarrow>
          (case fst (SupabaseStorage_createTestCase db createErrs (fst nows) data) of
             Inl e \<Rightarrow> []
           | Inr testCase \<Rightarrow> if logErr then [BackendError] else []))"
proof -
  have a: "SupabaseStorage_logActivity db True now log = (Inl BackendError, db)"
    by (simp add: SupabaseStorage_logActivity_def)
  have b: "post_api_testcases empty_db ((False, False), True) (1000, 1001) (Some login)
     = (\<lparr> out_response = Status201 login_row, out_warned = [],
          out_unhandled = [BackendError] \<rparr>, db_login)"
    by code_simp
  have c: "post_api_ai_generate_tests db_login True 2000
       (Some (''login tests'', ''functional'', 3)) True (Inr (JArray []))
     = (\<lparr> out_response = Status200 (JArray []), out_warned = [BackendError],
          out_unhandled = [] \<rparr>, db_login)"
    by code_simp
  show ?thesis
    using a b c post_api_ai_generate_tests_handled [of db logErr now parsed key_set generated]
      post_api_testcases_unhandled [of db createErrs logErr nows parsedCase]
    by simp
qed

end
